theory Spec2Isabelle
  imports Complex_Main "HOL-Library.Multiset" "HOL-Library.Char_ord" "HOL-Library.List_Lexorder"
begin

section \<open>JavaScript numbers\<close>

text \<open>
  A JavaScript number is an IEEE-754 double. The model keeps the three special values the
  language exposes (\<open>Infinity\<close>, \<open>-Infinity\<close>, \<open>NaN\<close>) and takes every finite value
  as an exact real: no rounding, no overflow, no signed zero. The special cases of each
  operator are those of the language (\<open>0 / 0\<close> and \<open>Infinity - Infinity\<close> are \<open>NaN\<close>,
  every comparison with \<open>NaN\<close> is false).
\<close>

datatype jsnum = Finite real | PosInfinity | NegInfinity | NaN

fun jneg :: "jsnum \<Rightarrow> jsnum" where
  "jneg (Finite x) = Finite (- x)"
| "jneg PosInfinity = NegInfinity"
| "jneg NegInfinity = PosInfinity"
| "jneg NaN = NaN"

fun jadd :: "jsnum \<Rightarrow> jsnum \<Rightarrow> jsnum" where
  "jadd NaN b = NaN"
| "jadd a NaN = NaN"
| "jadd (Finite x) (Finite y) = Finite (x + y)"
| "jadd PosInfinity NegInfinity = NaN"
| "jadd NegInfinity PosInfinity = NaN"
| "jadd PosInfinity b = PosInfinity"
| "jadd a PosInfinity = PosInfinity"
| "jadd NegInfinity b = NegInfinity"
| "jadd a NegInfinity = NegInfinity"

definition jsub :: "jsnum \<Rightarrow> jsnum \<Rightarrow> jsnum" where
  "jsub a b = jadd a (jneg b)"

text \<open>The sign of an infinite product or quotient, given the sign of the finite operand.\<close>

definition signedInfinity :: "bool \<Rightarrow> jsnum" where
  "signedInfinity positive = (if positive then PosInfinity else NegInfinity)"

fun jmul :: "jsnum \<Rightarrow> jsnum \<Rightarrow> jsnum" where
  "jmul NaN b = NaN"
| "jmul a NaN = NaN"
| "jmul (Finite x) (Finite y) = Finite (x * y)"
| "jmul (Finite x) PosInfinity = (if x = 0 then NaN else signedInfinity (0 < x))"
| "jmul (Finite x) NegInfinity = (if x = 0 then NaN else signedInfinity (x < 0))"
| "jmul PosInfinity (Finite y) = (if y = 0 then NaN else signedInfinity (0 < y))"
| "jmul NegInfinity (Finite y) = (if y = 0 then NaN else signedInfinity (y < 0))"
| "jmul PosInfinity PosInfinity = PosInfinity"
| "jmul PosInfinity NegInfinity = NegInfinity"
| "jmul NegInfinity PosInfinity = NegInfinity"
| "jmul NegInfinity NegInfinity = PosInfinity"

fun jdiv :: "jsnum \<Rightarrow> jsnum \<Rightarrow> jsnum" where
  "jdiv NaN b = NaN"
| "jdiv a NaN = NaN"
| "jdiv (Finite x) (Finite y) =
     (if y = 0 then (if x = 0 then NaN else signedInfinity (0 < x)) else Finite (x / y))"
| "jdiv (Finite x) PosInfinity = Finite 0"
| "jdiv (Finite x) NegInfinity = Finite 0"
| "jdiv PosInfinity (Finite y) = signedInfinity (0 \<le> y)"
| "jdiv NegInfinity (Finite y) = signedInfinity (y < 0)"
| "jdiv PosInfinity PosInfinity = NaN"
| "jdiv PosInfinity NegInfinity = NaN"
| "jdiv NegInfinity PosInfinity = NaN"
| "jdiv NegInfinity NegInfinity = NaN"

text \<open>\<open>Math.sqrt\<close>, \<open>Math.max\<close> of two arguments, \<open>Math.round\<close> (half rounds up),
  \<open>Math.sin\<close>, \<open>Math.cos\<close> and \<open>Math.atan2\<close>.\<close>

fun jsqrt :: "jsnum \<Rightarrow> jsnum" where
  "jsqrt (Finite x) = (if x < 0 then NaN else Finite (sqrt x))"
| "jsqrt PosInfinity = PosInfinity"
| "jsqrt NegInfinity = NaN"
| "jsqrt NaN = NaN"

fun jmax :: "jsnum \<Rightarrow> jsnum \<Rightarrow> jsnum" where
  "jmax NaN b = NaN"
| "jmax a NaN = NaN"
| "jmax (Finite x) (Finite y) = Finite (max x y)"
| "jmax PosInfinity b = PosInfinity"
| "jmax a PosInfinity = PosInfinity"
| "jmax NegInfinity b = b"
| "jmax a NegInfinity = a"

fun jround :: "jsnum \<Rightarrow> jsnum" where
  "jround (Finite x) = Finite (of_int (round x))"
| "jround a = a"

fun jsin :: "jsnum \<Rightarrow> jsnum" where
  "jsin (Finite x) = Finite (sin x)"
| "jsin a = NaN"

fun jcos :: "jsnum \<Rightarrow> jsnum" where
  "jcos (Finite x) = Finite (cos x)"
| "jcos a = NaN"

definition atan2 :: "real \<Rightarrow> real \<Rightarrow> real" where
  "atan2 y x =
     (if 0 < x then arctan (y / x)
      else if x < 0 then (if 0 \<le> y then arctan (y / x) + pi else arctan (y / x) - pi)
      else if 0 < y then pi / 2
      else if y < 0 then - (pi / 2)
      else 0)"

fun jatan2 :: "jsnum \<Rightarrow> jsnum \<Rightarrow> jsnum" where
  "jatan2 NaN b = NaN"
| "jatan2 a NaN = NaN"
| "jatan2 (Finite y) (Finite x) = Finite (atan2 y x)"
| "jatan2 (Finite y) PosInfinity = Finite 0"
| "jatan2 (Finite y) NegInfinity = Finite (if 0 \<le> y then pi else - pi)"
| "jatan2 PosInfinity (Finite x) = Finite (pi / 2)"
| "jatan2 NegInfinity (Finite x) = Finite (- (pi / 2))"
| "jatan2 PosInfinity PosInfinity = Finite (pi / 4)"
| "jatan2 PosInfinity NegInfinity = Finite (3 * pi / 4)"
| "jatan2 NegInfinity PosInfinity = Finite (- (pi / 4))"
| "jatan2 NegInfinity NegInfinity = Finite (- (3 * pi / 4))"

text \<open>The comparisons \<open>a <= b\<close> and \<open>a > b\<close>; \<open>a >= b\<close> is \<open>jle b a\<close>.\<close>

fun jle :: "jsnum \<Rightarrow> jsnum \<Rightarrow> bool" where
  "jle NaN b = False"
| "jle a NaN = False"
| "jle (Finite x) (Finite y) = (x \<le> y)"
| "jle NegInfinity b = True"
| "jle a PosInfinity = True"
| "jle PosInfinity b = False"
| "jle a NegInfinity = False"

fun jgt :: "jsnum \<Rightarrow> jsnum \<Rightarrow> bool" where
  "jgt NaN b = False"
| "jgt a NaN = False"
| "jgt (Finite x) (Finite y) = (y < x)"
| "jgt PosInfinity PosInfinity = False"
| "jgt PosInfinity b = True"
| "jgt a NegInfinity = (a \<noteq> NegInfinity)"
| "jgt NegInfinity b = False"
| "jgt a PosInfinity = False"


section \<open>Array.prototype.sort\<close>

text \<open>
  \<open>xs.sort(cmp)\<close> is stable, and \<open>cmp(x, y) > 0\<close> is what moves \<open>x\<close> behind \<open>y\<close> (a
  comparator result of \<open>NaN\<close> counts as zero). For a consistent comparator the result is
  the one stable ordering of the array, which insertion from the right computes.
\<close>

fun insertSorted :: "('a \<Rightarrow> 'a \<Rightarrow> jsnum) \<Rightarrow> 'a \<Rightarrow> 'a list \<Rightarrow> 'a list" where
  "insertSorted cmp x [] = [x]"
| "insertSorted cmp x (y # ys) =
     (if jgt (cmp x y) (Finite 0) then y # insertSorted cmp x ys else x # y # ys)"

definition arraySort :: "('a \<Rightarrow> 'a \<Rightarrow> jsnum) \<Rightarrow> 'a list \<Rightarrow> 'a list" where
  "arraySort cmp xs = foldr (insertSorted cmp) xs []"

section \<open>Errors and promises\<close>

text \<open>
  Every \<open>throw\<close> of the modelled functions is a constructor of \<open>error\<close>. An asynchronous
  call is a promise in one of three states; \<open>Pending\<close> is a promise that has not settled
  when its caller stops waiting: at the deadline of a race, or never for a bare
  \<open>await\<close>.
\<close>

datatype error =
    VectorsLengthMismatch
  | ModelLoadingFailed
  | DatabaseRequired
  | TitleRequired
  | DatabaseAndIdRequired
  | IntentionNotFound string
  | CacheRequestFailed
  | StoreFailure
  | Timeout string
  | PeerConnectFailed
  | PeerDiscoveryFailed
  | URIError
  | MissingIndexField string

datatype 'a promise = Fulfilled 'a | Rejected error | Pending

text \<open>\<open>Promise.race([p, timer])\<close>, the timer rejecting with the given message.\<close>

definition raceTimeout :: "'a promise \<Rightarrow> string \<Rightarrow> 'a promise" where
  "raceTimeout p message = (case p of Pending \<Rightarrow> Rejected (Timeout message) | settled \<Rightarrow> settled)"

text \<open>\<open>await p\<close> followed by the rest of an async function.\<close>

definition await :: "'a promise \<Rightarrow> ('a \<Rightarrow> 'b promise) \<Rightarrow> 'b promise" where
  "await p rest = (case p of Fulfilled v \<Rightarrow> rest v | Rejected e \<Rightarrow> Rejected e | Pending \<Rightarrow> Pending)"

section \<open>The search engine (intention-search-engine.js)\<close>

type_synonym geo = "jsnum \<times> jsnum"

record intention =
  docId :: string
  intentionId :: string
  title :: string
  description :: string
  location :: string
  geo :: "geo option"
  status :: string
  createdBy :: string
  createdAt :: int
  updatedAt :: int
  tags :: "string list"
  category :: string
  embedding :: "jsnum list option"
  embeddedAt :: "int option"
  completedAt :: "int option"
  archivedAt :: "int option"

text \<open>The loop of \<open>cosineSimilarity\<close>: the accumulators are the dot product and the two
  squared norms.\<close>

fun cosineLoop :: "jsnum list \<Rightarrow> jsnum list \<Rightarrow> jsnum \<times> jsnum \<times> jsnum \<Rightarrow> jsnum \<times> jsnum \<times> jsnum" where
  "cosineLoop (a # as) (b # bs) (dotProduct, normA, normB) =
     cosineLoop as bs (jadd dotProduct (jmul a b), jadd normA (jmul a a), jadd normB (jmul b b))"
| "cosineLoop as bs acc = acc"

definition cosineSimilarity :: "jsnum list \<Rightarrow> jsnum list \<Rightarrow> error + jsnum" where
  "cosineSimilarity vecA vecB =
     (if length vecA \<noteq> length vecB then Inl VectorsLengthMismatch
      else case cosineLoop vecA vecB (Finite 0, Finite 0, Finite 0) of
        (dotProduct, normA, normB) \<Rightarrow> Inr (jdiv dotProduct (jmul (jsqrt normA) (jsqrt normB))))"

text \<open>Two predicates for the proofs about the loop: what the accumulator of a squared
  norm can be (never negative, never \<open>-Infinity\<close>), and what a product with a zero is.\<close>

definition nonnegAcc :: "jsnum \<Rightarrow> bool" where
  "nonnegAcc a =
     (case a of Finite x \<Rightarrow> 0 \<le> x | PosInfinity \<Rightarrow> True | NegInfinity \<Rightarrow> False | NaN \<Rightarrow> True)"

definition zeroOrNaN :: "jsnum \<Rightarrow> bool" where
  "zeroOrNaN a = (a = Finite 0 \<or> a = NaN)"

definition toRadians :: "jsnum \<Rightarrow> jsnum" where
  "toRadians deg = jdiv (jmul deg (Finite pi)) (Finite 180)"

definition geoDistance :: "geo option \<Rightarrow> geo option \<Rightarrow> jsnum" where
  "geoDistance geo1 geo2 =
     (case (geo1, geo2) of
        (Some (lat1, lon1), Some (lat2, lon2)) \<Rightarrow>
          (let R = Finite 6371;
               dLat = toRadians (jsub lat2 lat1);
               dLon = toRadians (jsub lon2 lon1);
               a = jadd
                     (jmul (jsin (jdiv dLat (Finite 2))) (jsin (jdiv dLat (Finite 2))))
                     (jmul (jmul (jmul (jcos (toRadians lat1)) (jcos (toRadians lat2)))
                                 (jsin (jdiv dLon (Finite 2))))
                           (jsin (jdiv dLon (Finite 2))));
               c = jmul (Finite 2) (jatan2 (jsqrt a) (jsqrt (jsub (Finite 1) a)))
           in jmul R c)
      | _ \<Rightarrow> PosInfinity)"

text \<open>The second parameter is optional in the source: \<open>None\<close> is the call that leaves it out,
  where \<open>maxDistance\<close> defaults to 100.\<close>

definition normalizeGeoScore :: "jsnum \<Rightarrow> jsnum option \<Rightarrow> jsnum" where
  "normalizeGeoScore distance maxDistance =
     (if distance = PosInfinity then Finite 0
      else jmax (Finite 0)
             (jsub (Finite 1) (jdiv distance (case maxDistance of None \<Rightarrow> Finite 100 | Some m \<Rightarrow> m))))"

record dimensions =
  width :: jsnum
  height :: jsnum

text \<open>
  \<open>calculateCardDimensions\<close>, in the exact arithmetic of this number model. The program
  rounds each sum, product and quotient to a double before \<open>Math.round\<close>, so where an
  exact product lies within that rounding of a half (score \<open>1/2 - 2^-54\<close> and base width
  2, for one), the integer the program returns is the neighbour of the one computed
  here.
\<close>

definition PHI :: jsnum where
  "PHI = Finite (1618 / 1000)"

definition scaleFactor :: "jsnum \<Rightarrow> jsnum" where
  "scaleFactor score = jadd (Finite (1 / 2)) (jmul score (Finite (1 / 2)))"

definition calculateCardDimensions :: "jsnum \<Rightarrow> jsnum option \<Rightarrow> dimensions" where
  "calculateCardDimensions score baseWidth =
     (let w = jround (jmul (case baseWidth of None \<Rightarrow> Finite 320 | Some b \<Rightarrow> b) (scaleFactor score));
          h = jround (jdiv w PHI)
      in \<lparr>width = w, height = h\<rparr>)"

text \<open>
  \<open>generateEmbedding\<close> runs the embedding model, an external capability: it is a parameter
  of everything that embeds, a function from the text to the promise of its vector
  (\<open>Rejected ModelLoadingFailed\<close> when \<open>initializeSearchModel\<close> throws).
\<close>

type_synonym embedder = "string \<Rightarrow> jsnum list promise"

text \<open>\<open>now\<close> is the reading of \<open>Date.now()\<close> taken for \<open>embeddedAt\<close>. The text is
  \<open>`${title} ${description || ''}`\<close>; an empty description is the only falsy string.\<close>

definition embedText :: "intention \<Rightarrow> string" where
  "embedText i = title i @ '' '' @ (if description i = [] then [] else description i)"

definition embedIntention :: "embedder \<Rightarrow> int \<Rightarrow> intention \<Rightarrow> intention promise" where
  "embedIntention generateEmbedding now i =
     await (generateEmbedding (embedText i))
       (\<lambda>e. Fulfilled (i\<lparr>embedding := Some e, embeddedAt := Some now\<rparr>))"


record score =
  combined :: jsnum
  semantic :: jsnum
  geoProximity :: jsnum

record search_result =
  item :: intention
  score :: score
  dims :: dimensions
  matchPercentage :: jsnum

text \<open>The callback of \<open>intentions.map\<close>: \<open>None\<close> is its \<open>null\<close> for an intention without
  embedding, \<open>Inl\<close> the exception of \<open>cosineSimilarity\<close>.\<close>

definition scoreIntention ::
  "jsnum list \<Rightarrow> geo option \<Rightarrow> jsnum \<Rightarrow> jsnum \<Rightarrow> intention \<Rightarrow> error + search_result option" where
  "scoreIntention queryEmbedding userLoc semWeight gWeight i =
     (case embedding i of
        None \<Rightarrow> Inr None
      | Some e \<Rightarrow>
          (case cosineSimilarity queryEmbedding e of
             Inl err \<Rightarrow> Inl err
           | Inr semanticScore \<Rightarrow>
               (let geoScore =
                      (if userLoc \<noteq> None \<and> geo i \<noteq> None
                       then normalizeGeoScore (geoDistance userLoc (geo i)) None
                       else Finite 0);
                    combinedScore =
                      (if userLoc \<noteq> None \<and> geo i \<noteq> None
                       then jadd (jmul semanticScore semWeight) (jmul geoScore gWeight)
                       else semanticScore)
                in Inr (Some
                     \<lparr>item = i,
                      score = \<lparr>combined = combinedScore, semantic = semanticScore,
                               geoProximity = geoScore\<rparr>,
                      dims = calculateCardDimensions combinedScore None,
                      matchPercentage = jround (jmul combinedScore (Finite 100))\<rparr>))))"




definition orDefault :: "'a option \<Rightarrow> 'a \<Rightarrow> 'a" where
  "orDefault v d = (case v of None \<Rightarrow> d | Some x \<Rightarrow> x)"



section \<open>Strings\<close>

text \<open>
  A string is a list of code units, here the 8-bit \<open>char\<close>. \<open>isWhiteSpace\<close> holds the
  white space and line terminators of the language in that range (TAB, LF, VT, FF, CR,
  SP, NBSP): what \<open>String.prototype.trim\<close> strips from both ends.
\<close>

definition isWhiteSpace :: "char \<Rightarrow> bool" where
  "isWhiteSpace c =
     (c = CHR 0x09 \<or> c = CHR 0x0A \<or> c = CHR 0x0B \<or> c = CHR 0x0C \<or> c = CHR 0x0D \<or>
      c = CHR 0x20 \<or> c = CHR 0xA0)"

definition trim :: "string \<Rightarrow> string" where
  "trim s = rev (dropWhile isWhiteSpace (rev (dropWhile isWhiteSpace s)))"

text \<open>\<open>s.split(sep)\<close> for a separator of one character; the empty string splits into
  one empty string.\<close>

fun splitOn :: "char \<Rightarrow> string \<Rightarrow> string list" where
  "splitOn sep [] = [[]]"
| "splitOn sep (c # cs) =
     (if c = sep then [] # splitOn sep cs
      else (case splitOn sep cs of w # ws \<Rightarrow> (c # w) # ws | [] \<Rightarrow> [[c]]))"

text \<open>Decimal digits of a number in a template string.\<close>

fun digitsOf :: "nat \<Rightarrow> string" where
  "digitsOf n =
     (if n < 10 then [''0123456789'' ! n] else digitsOf (n div 10) @ [''0123456789'' ! (n mod 10)])"

definition showInt :: "int \<Rightarrow> string" where
  "showInt i = (if i < 0 then CHR ''-'' # digitsOf (nat (- i)) else digitsOf (nat i))"

section \<open>The local cache (IndexedDB store \<open>intentions\<close>, key path \<open>intentionId\<close>)\<close>

text \<open>
  The object store holds one record per key, in ascending key order, which is the order
  of \<open>getAll\<close>. The three flags are what the browser does with the requests of one call:
  whether \<open>indexedDB.open\<close> succeeds, whether the \<open>getAll\<close> request succeeds, and whether
  the read-write transaction completes (an aborted transaction leaves the store as it
  was).
\<close>

record cache =
  openSucceeds :: bool
  readSucceeds :: bool
  writeSucceeds :: bool
  objectStore :: "intention list"

fun storePut :: "intention \<Rightarrow> intention list \<Rightarrow> intention list" where
  "storePut x [] = [x]"
| "storePut x (y # ys) =
     (if intentionId x = intentionId y then x # ys
      else if intentionId x < intentionId y then x # y # ys
      else y # storePut x ys)"

definition byCreatedAtDesc :: "intention \<Rightarrow> intention \<Rightarrow> jsnum" where
  "byCreatedAtDesc a b = jsub (Finite (of_int (createdAt b))) (Finite (of_int (createdAt a)))"

text \<open>
  \<open>loadIntentionsFromCache\<close>: a failure of \<open>openCacheDB\<close> is awaited inside the \<open>try\<close> and
  gives \<open>[]\<close>; the promise of the request is returned without \<open>await\<close>, so its rejection
  passes the \<open>catch\<close> and reaches the caller.
\<close>

definition loadIntentionsFromCache :: "cache \<Rightarrow> intention list promise" where
  "loadIntentionsFromCache c =
     (if \<not> openSucceeds c then Fulfilled []
      else if \<not> readSucceeds c then Rejected CacheRequestFailed
      else Fulfilled (arraySort byCreatedAtDesc (objectStore c)))"

text \<open>\<open>saveIntentionsToCache\<close>: clear, then put each record; every failure is caught and
  logged.\<close>

definition saveIntentionsToCache :: "cache \<Rightarrow> intention list \<Rightarrow> cache" where
  "saveIntentionsToCache c intentions =
     (if openSucceeds c \<and> writeSucceeds c
      then c\<lparr>objectStore := foldl (\<lambda>store i. storePut i store) [] intentions\<rparr>
      else c)"

section \<open>The replicated store (database.js)\<close>

text \<open>
  A JavaScript object with any of the record's properties: \<open>None\<close> is a property left
  out; for a property that the record may lack, \<open>Some None\<close> is the property present and
  empty. It is the type of the argument \<open>updates\<close> of \<open>updateIntention\<close>, and of every
  document handed to \<open>put\<close>. \<open>asObject\<close> is a record seen as such an object.
\<close>

record intention_patch =
  patchDocId :: "string option"
  patchIntentionId :: "string option"
  patchTitle :: "string option"
  patchDescription :: "string option"
  patchLocation :: "string option"
  patchGeo :: "geo option option"
  patchStatus :: "string option"
  patchCreatedBy :: "string option"
  patchCreatedAt :: "int option"
  patchUpdatedAt :: "int option"
  patchTags :: "string list option"
  patchCategory :: "string option"
  patchEmbedding :: "jsnum list option option"
  patchEmbeddedAt :: "int option option"
  patchCompletedAt :: "int option option"
  patchArchivedAt :: "int option option"

definition asObject :: "intention \<Rightarrow> intention_patch" where
  "asObject i =
     \<lparr>patchDocId = Some (docId i),
      patchIntentionId = Some (intentionId i),
      patchTitle = Some (title i),
      patchDescription = Some (description i),
      patchLocation = Some (location i),
      patchGeo = Some (geo i),
      patchStatus = Some (status i),
      patchCreatedBy = Some (createdBy i),
      patchCreatedAt = Some (createdAt i),
      patchUpdatedAt = Some (updatedAt i),
      patchTags = Some (tags i),
      patchCategory = Some (category i),
      patchEmbedding = map_option Some (embedding i),
      patchEmbeddedAt = map_option Some (embeddedAt i),
      patchCompletedAt = map_option Some (completedAt i),
      patchArchivedAt = map_option Some (archivedAt i)\<rparr>"

text \<open>
  The session object of the replicated store, a documents store of \<open>@orbitdb/core\<close>
  indexed by \<open>intentionId\<close>, with the three methods the code calls and the promise each
  returns: \<open>all()\<close> gives the entries \<open>{hash, key, value}\<close>, whose \<open>value\<close> is the record;
  \<open>get(id)\<close> gives the one entry stored under the key, or \<open>undefined\<close>; \<open>put(document)\<close>
  gives nothing.
\<close>

record entry =
  entryKey :: string
  entryValue :: intention

record database =
  dbName :: string
  dbAddress :: string
  identityId :: string
  allDocs :: "entry list promise"
  getDoc :: "string \<Rightarrow> entry option promise"
  putDoc :: "intention_patch \<Rightarrow> unit promise"
  isNewDatabaseFlag :: bool
  isJoinedViaInvitationFlag :: bool

text \<open>What a function did to the outside, in order.\<close>

datatype effect =
    EmbedCall string
  | CacheRead
  | CacheWrite "intention list"
  | StoreAll
  | StoreGet string
  | StorePut intention_patch
  | Dial string
  | Sleep nat
  | StoreOpen string nat
  | StoreCreate string nat
  | RememberAddress string
  | ForgetAddress
  | ClearUrl

definition loadIntentions ::
  "database option \<Rightarrow> bool \<Rightarrow> cache \<Rightarrow> intention list promise \<times> cache" where
  "loadIntentions database isNewDatabase c =
     (case database of
        None \<Rightarrow> (Fulfilled [], c)
      | Some db \<Rightarrow>
          if isNewDatabase then (Fulfilled [], c)
          else
            (case raceTimeout (allDocs db) ''Database.all() timeout after 30 seconds'' of
               Fulfilled allIntentions \<Rightarrow>
                 (let intentions = arraySort byCreatedAtDesc (map entryValue allIntentions)
                  in (Fulfilled intentions, saveIntentionsToCache c intentions))
             | Rejected e \<Rightarrow> (Fulfilled [], c)
             | Pending \<Rightarrow> (Fulfilled [], c)))"

text \<open>The argument of \<open>createIntention\<close>; \<open>None\<close> is a property left out.\<close>

record intention_data =
  dataTitle :: "string option"
  dataDescription :: "string option"
  dataLocation :: "string option"
  dataGeo :: "geo option"
  dataTags :: "string list option"
  dataCategory :: "string option"

text \<open>What \<open>Date.now()\<close> and \<open>Math.random()\<close> give during one \<open>createIntention\<close>: the reading
  for the identifier, its random suffix, and the readings for \<open>createdAt\<close>, \<open>updatedAt\<close> and
  \<open>embeddedAt\<close>.\<close>

record create_readings =
  idNow :: int
  idSuffix :: string
  createdNow :: int
  updatedNow :: int
  embeddedNow :: int

text \<open>\<open>v || d\<close> for a string property.\<close>

definition stringOr :: "string option \<Rightarrow> string \<Rightarrow> string" where
  "stringOr v d = (case v of None \<Rightarrow> d | Some s \<Rightarrow> if s = [] then d else s)"

text \<open>The object literal of \<open>createIntention\<close>; \<open>givenTitle\<close> is \<open>intentionData.title\<close>, which
  the check before has found present.\<close>

definition newIntention ::
  "create_readings \<Rightarrow> database \<Rightarrow> intention_data \<Rightarrow> string \<Rightarrow> intention" where
  "newIntention r db intentionData givenTitle =
     (let newId = ''int_'' @ showInt (idNow r) @ ''_'' @ idSuffix r in
      \<lparr>docId = newId,
       intentionId = newId,
       title = trim givenTitle,
       description = stringOr (map_option trim (dataDescription intentionData)) [],
       location = stringOr (dataLocation intentionData) [],
       geo = dataGeo intentionData,
       status = ''active'',
       createdBy = identityId db,
       createdAt = createdNow r,
       updatedAt = updatedNow r,
       tags = orDefault (dataTags intentionData) [],
       category = stringOr (dataCategory intentionData) ''general'',
       embedding = None,
       embeddedAt = None,
       completedAt = None,
       archivedAt = None\<rparr>)"

definition createIntention ::
  "embedder \<Rightarrow> create_readings \<Rightarrow> database option \<Rightarrow> intention_data \<Rightarrow> cache \<Rightarrow>
     intention promise \<times> cache \<times> effect list" where
  "createIntention generateEmbedding r database intentionData c =
     (case database of
        None \<Rightarrow> (Rejected DatabaseRequired, c, [])
      | Some db \<Rightarrow>
          (case dataTitle intentionData of
             None \<Rightarrow> (Rejected TitleRequired, c, [])
           | Some givenTitle \<Rightarrow>
               if givenTitle = [] \<or> trim givenTitle = [] then (Rejected TitleRequired, c, [])
               else
                 (let intention = newIntention r db intentionData givenTitle in
                  case embedIntention generateEmbedding (embeddedNow r) intention of
                    Rejected e \<Rightarrow> (Rejected e, c, [EmbedCall (embedText intention)])
                  | Pending \<Rightarrow> (Pending, c, [EmbedCall (embedText intention)])
                  | Fulfilled intentionWithEmbedding \<Rightarrow>
                      (case loadIntentionsFromCache c of
                         Rejected e \<Rightarrow>
                           (Rejected e, c, [EmbedCall (embedText intention), CacheRead])
                       | Pending \<Rightarrow> (Pending, c, [EmbedCall (embedText intention), CacheRead])
                       | Fulfilled currentCache \<Rightarrow>
                           (let saved = currentCache @ [intentionWithEmbedding];
                                c' = saveIntentionsToCache c saved;
                                effects =
                                  [EmbedCall (embedText intention), CacheRead, CacheWrite saved,
                                   StorePut (asObject intentionWithEmbedding)]
                            in case raceTimeout (putDoc db (asObject intentionWithEmbedding))
                                      ''Database write timeout after 15 seconds'' of
                                 Fulfilled u \<Rightarrow> (Fulfilled intentionWithEmbedding, c', effects)
                               | Rejected writeError \<Rightarrow>
                                   (Fulfilled intentionWithEmbedding, c', effects)
                               | Pending \<Rightarrow> (Fulfilled intentionWithEmbedding, c', effects))))))"

text \<open>\<open>updates.title || updates.description\<close>: a string is truthy when it is not empty.\<close>

definition truthyString :: "string option \<Rightarrow> bool" where
  "truthyString v = (case v of None \<Rightarrow> False | Some s \<Rightarrow> s \<noteq> [])"

text \<open>
  \<open>embedIntention\<close> applied to an object: the template string prints a missing title as
  \<open>undefined\<close>.
\<close>

definition objectText :: "intention_patch \<Rightarrow> string" where
  "objectText obj =
     (case patchTitle obj of None \<Rightarrow> ''undefined'' | Some t \<Rightarrow> t) @ '' '' @
     (case patchDescription obj of None \<Rightarrow> [] | Some d \<Rightarrow> d)"

definition embedObject :: "embedder \<Rightarrow> int \<Rightarrow> intention_patch \<Rightarrow> intention_patch promise" where
  "embedObject generateEmbedding now obj =
     await (generateEmbedding (objectText obj))
       (\<lambda>e. Fulfilled (obj\<lparr>patchEmbedding := Some (Some e), patchEmbeddedAt := Some (Some now)\<rparr>))"

text \<open>
  \<open>updateIntention\<close>. \<open>now\<close> is the reading of \<open>Date.now()\<close> for \<open>updatedAt\<close>, \<open>embedNow\<close>
  the later one inside \<open>embedIntention\<close>. The code treats the answer of \<open>get\<close> as an array:
  on the entry the store returns, \<open>existing.length\<close> is \<open>undefined\<close>, so the test
  \<open>existing.length === 0\<close> is false, and \<open>existing[0]\<close> is \<open>undefined\<close>, so the spread
  \<open>...existing[0]\<close> adds no property. The object built is \<open>updates\<close> with \<open>updatedAt\<close>.
\<close>

definition updateIntention ::
  "embedder \<Rightarrow> int \<Rightarrow> int \<Rightarrow> database option \<Rightarrow> string \<Rightarrow> intention_patch \<Rightarrow>
     intention_patch promise \<times> effect list" where
  "updateIntention generateEmbedding now embedNow database wantedId updates =
     (case database of
        None \<Rightarrow> (Rejected DatabaseAndIdRequired, [])
      | Some db \<Rightarrow>
          if wantedId = [] then (Rejected DatabaseAndIdRequired, [])
          else
            (case getDoc db wantedId of
               Rejected e \<Rightarrow> (Rejected e, [StoreGet wantedId])
             | Pending \<Rightarrow> (Pending, [StoreGet wantedId])
             | Fulfilled None \<Rightarrow> (Rejected (IntentionNotFound wantedId), [StoreGet wantedId])
             | Fulfilled (Some existing) \<Rightarrow>
                 (let updatedIntention = updates\<lparr>patchUpdatedAt := Some now\<rparr> in
                  if truthyString (patchTitle updates) \<or> truthyString (patchDescription updates)
                  then
                    (case embedObject generateEmbedding embedNow updatedIntention of
                       Rejected e \<Rightarrow>
                         (Rejected e, [StoreGet wantedId, EmbedCall (objectText updatedIntention)])
                     | Pending \<Rightarrow>
                         (Pending, [StoreGet wantedId, EmbedCall (objectText updatedIntention)])
                     | Fulfilled reembedded \<Rightarrow>
                         (await (putDoc db reembedded) (\<lambda>u. Fulfilled reembedded),
                          [StoreGet wantedId, EmbedCall (objectText updatedIntention),
                           StorePut reembedded]))
                  else
                    (await (putDoc db updatedIntention) (\<lambda>u. Fulfilled updatedIntention),
                     [StoreGet wantedId, StorePut updatedIntention]))))"

section \<open>Joining the shared store (\<open>openIntentionsDatabase\<close>)\<close>

text \<open>
  The browser state the join reads and writes: the query string of the page, as the pairs
  \<open>URLSearchParams\<close> yields, and the entry \<open>syncengine-database-address\<close> of
  \<open>localStorage\<close>. \<open>libp2p.dial\<close> and \<open>orbitdb.open\<close> are the transport and the store;
  the flag of \<open>openStore\<close> is the option \<open>create\<close>. \<open>decodeURIComponent\<close> is the host's
  function and a parameter here; \<open>None\<close> is its \<open>URIError\<close> on a malformed escape.
\<close>

record browser =
  urlQuery :: "(string \<times> string) list"
  rememberedAddress :: "string option"

record libp2p =
  dial :: "string \<Rightarrow> unit promise"

record orbitdb =
  openStore :: "string \<Rightarrow> bool \<Rightarrow> database promise"

definition getDatabaseAddressFromURL :: "browser \<Rightarrow> string option" where
  "getDatabaseAddressFromURL b =
     (case map_of (urlQuery b) ''db'' of
        Some found \<Rightarrow> if found \<noteq> [] then Some found else None
      | None \<Rightarrow> None)"

definition getPeerMultiaddrsFromURL ::
  "(string \<Rightarrow> string option) \<Rightarrow> browser \<Rightarrow> error + string list option" where
  "getPeerMultiaddrsFromURL decodeURIComponent b =
     (case map_of (urlQuery b) ''peers'' of
        Some peersParam \<Rightarrow>
          if peersParam \<noteq> [] then
            (case decodeURIComponent peersParam of
               None \<Rightarrow> Inl URIError
             | Some decoded \<Rightarrow>
                 (let multiaddrs =
                        filter (\<lambda>addr. 0 < length (trim addr)) (splitOn CHR '','' decoded)
                  in Inr (if 0 < length multiaddrs then Some multiaddrs else None)))
          else Inr None
      | None \<Rightarrow> Inr None)"

text \<open>
  \<open>dialDirectPeers\<close>: every dial is wrapped to resolve to true or false, and the array of
  wrapped dials is raced against ten seconds. One dial still pending at the deadline
  rejects the race, which the \<open>catch\<close> turns into false.
\<close>

definition dialDirectPeers :: "libp2p option \<Rightarrow> string list option \<Rightarrow> bool" where
  "dialDirectPeers node multiaddrs =
     (case (node, multiaddrs) of
        (Some l, Some addrs) \<Rightarrow>
          if addrs = [] then False
          else
            (let results = map (dial l) addrs in
             if list_ex (\<lambda>r. r = Pending) results then False
             else 0 < length (filter (\<lambda>r. r = Fulfilled ()) results))
      | _ \<Rightarrow> False)"

definition clearDatabaseFromURL :: "browser \<Rightarrow> browser" where
  "clearDatabaseFromURL b = (if map_of (urlQuery b) ''db'' \<noteq> None then b\<lparr>urlQuery := []\<rparr> else b)"

definition withFlags :: "database \<Rightarrow> bool \<Rightarrow> bool \<Rightarrow> database" where
  "withFlags db isNew viaInvitation =
     db\<lparr>isNewDatabaseFlag := isNew, isJoinedViaInvitationFlag := viaInvitation\<rparr>"

text \<open>The block \<open>if (!database)\<close> that creates a new store; \<open>before\<close> is what was done so
  far.\<close>

definition createNewDatabase ::
  "orbitdb \<Rightarrow> browser \<Rightarrow> effect list \<Rightarrow> database promise \<times> browser \<times> effect list" where
  "createNewDatabase store b before =
     (case raceTimeout (openStore store ''syncengine-global-intentions'' True)
             ''Database open timeout after 15 seconds'' of
        Fulfilled db \<Rightarrow>
          (Fulfilled (withFlags db True False),
           b\<lparr>rememberedAddress := Some (dbAddress db)\<rparr>,
           before @ [StoreCreate ''syncengine-global-intentions'' 15000,
                     RememberAddress (dbAddress db)])
      | Rejected e \<Rightarrow>
          (Rejected e, b, before @ [StoreCreate ''syncengine-global-intentions'' 15000])
      | Pending \<Rightarrow>
          (Pending, b, before @ [StoreCreate ''syncengine-global-intentions'' 15000]))"

text \<open>
  \<open>openIntentionsDatabase\<close>. The two URL parameters are read before any \<open>try\<close>: a
  \<open>URIError\<close> of \<open>getPeerMultiaddrsFromURL\<close> ends the call there, with nothing opened
  and nothing changed.
\<close>

definition openIntentionsDatabase ::
  "(string \<Rightarrow> string option) \<Rightarrow> orbitdb \<Rightarrow> libp2p option \<Rightarrow> browser \<Rightarrow>
     database promise \<times> browser \<times> effect list" where
  "openIntentionsDatabase decodeURIComponent store node b =
     (let urlAddress = getDatabaseAddressFromURL b in
      case getPeerMultiaddrsFromURL decodeURIComponent b of
        Inl uriError \<Rightarrow> (Rejected uriError, b, [])
      | Inr peerMultiaddrs \<Rightarrow>
          (let storedAddress = rememberedAddress b;
               hints = (case peerMultiaddrs of None \<Rightarrow> [] | Some addrs \<Rightarrow> addrs)
           in case urlAddress of
                Some address \<Rightarrow>
                  (let dialing = (0 < length hints \<and> node \<noteq> None);
                       directPeerConnected = (dialing \<and> dialDirectPeers node peerMultiaddrs);
                       before = (if dialing then map Dial hints else []) @
                                (if directPeerConnected then [Sleep 1000] else []);
                       timeout = (if directPeerConnected then 30000 else 90000);
                       timeoutMessage =
                         (if directPeerConnected then ''Database open timeout after 30 seconds''
                          else ''Database open timeout after 90 seconds (peer discovery via bootstrap)'')
                   in case raceTimeout (openStore store address False) timeoutMessage of
                        Fulfilled db \<Rightarrow>
                          (Fulfilled (withFlags db False True),
                           clearDatabaseFromURL (b\<lparr>rememberedAddress := Some address\<rparr>),
                           before @ [StoreOpen address timeout, RememberAddress address, ClearUrl])
                      | Rejected e \<Rightarrow>
                          (Rejected (if 0 < length hints then PeerConnectFailed else PeerDiscoveryFailed),
                           clearDatabaseFromURL b,
                           before @ [StoreOpen address timeout, ClearUrl])
                      | Pending \<Rightarrow>
                          (Rejected (if 0 < length hints then PeerConnectFailed else PeerDiscoveryFailed),
                           clearDatabaseFromURL b,
                           before @ [StoreOpen address timeout, ClearUrl]))
              | None \<Rightarrow>
                  (case storedAddress of
                     None \<Rightarrow> createNewDatabase store b []
                   | Some stored \<Rightarrow>
                       if stored = [] then createNewDatabase store b []
                       else
                         (case raceTimeout (openStore store stored False)
                                 ''Database open timeout after 30 seconds'' of
                            Fulfilled db \<Rightarrow>
                              (Fulfilled (withFlags db False False), b, [StoreOpen stored 30000])
                          | Rejected e \<Rightarrow>
                              createNewDatabase store (b\<lparr>rememberedAddress := None\<rparr>)
                                [StoreOpen stored 30000, ForgetAddress]
                          | Pending \<Rightarrow>
                              createNewDatabase store (b\<lparr>rememberedAddress := None\<rparr>)
                                [StoreOpen stored 30000, ForgetAddress]))))"

text \<open>The attempts to open or create a store among the effects of a join.\<close>

fun isOpenAttempt :: "effect \<Rightarrow> bool" where
  "isOpenAttempt (StoreOpen a t) = True"
| "isOpenAttempt (StoreCreate a t) = True"
| "isOpenAttempt e = False"

section \<open>The creation form (CreateIntentionForm.svelte)\<close>

record form =
  formTitle :: string
  formDescription :: string
  formLocation :: string
  formCategory :: string
  formTags :: string

text \<open>\<open>handleSubmit\<close>: \<open>Inl\<close> is the \<open>errorMessage\<close> it sets before returning, \<open>Inr\<close> the
  detail of the \<open>create\<close> event it dispatches.\<close>

definition handleSubmit :: "form \<Rightarrow> string + intention_data" where
  "handleSubmit f =
     (if trim (formTitle f) = [] then Inl ''title required''
      else if 200 < length (formTitle f) then Inl ''title too long (max 200 chars)''
      else if 2000 < length (formDescription f) then Inl ''description too long (max 2000 chars)''
      else Inr
        \<lparr>dataTitle = Some (trim (formTitle f)),
         dataDescription = Some (trim (formDescription f)),
         dataLocation = Some (trim (formLocation f)),
         dataGeo = None,
         dataTags = Some (filter (\<lambda>t. 0 < length t) (map trim (splitOn CHR '','' (formTags f)))),
         dataCategory = Some (formCategory f)\<rparr>)"

section \<open>Sample values\<close>

text \<open>Concrete records, stores and caches on which the theorems below are run.\<close>

definition sampleIntention :: intention where
  "sampleIntention =
     \<lparr>docId = ''int_1_a'', intentionId = ''int_1_a'', title = ''help moving'',
      description = ''furniture'', location = [], geo = None, status = ''active'',
      createdBy = ''did:a'', createdAt = 1, updatedAt = 1, tags = [], category = ''general'',
      embedding = Some [Finite 1, Finite 0], embeddedAt = Some 1, completedAt = None,
      archivedAt = None\<rparr>"

definition laterIntention :: intention where
  "laterIntention =
     \<lparr>docId = ''int_2_b'', intentionId = ''int_2_b'', title = ''garden tools'',
      description = [], location = [], geo = None, status = ''active'',
      createdBy = ''did:b'', createdAt = 2, updatedAt = 2, tags = [], category = ''offer'',
      embedding = Some [Finite 0, Finite 1], embeddedAt = Some 2, completedAt = None,
      archivedAt = None\<rparr>"

definition sampleCache :: cache where
  "sampleCache =
     \<lparr>openSucceeds = True, readSucceeds = True, writeSucceeds = True,
      objectStore = [sampleIntention, laterIntention]\<rparr>"

text \<open>A cache whose database cannot be opened.\<close>

definition brokenCache :: cache where
  "brokenCache =
     \<lparr>openSucceeds = False, readSucceeds = False, writeSucceeds = False, objectStore = []\<rparr>"

text \<open>
  The \<open>put\<close> of a documents store indexed by \<open>intentionId\<close>: it refuses a document that
  does not carry the index field.
\<close>

definition documentsPut :: "intention_patch \<Rightarrow> unit promise" where
  "documentsPut document =
     (if truthyString (patchIntentionId document) then Fulfilled ()
      else Rejected (MissingIndexField ''intentionId''))"

text \<open>A session that answers: it holds the two records and accepts every document that
  has its key.\<close>

definition sampleDatabase :: database where
  "sampleDatabase =
     \<lparr>dbName = ''syncengine-global-intentions'', dbAddress = ''/orbitdb/zdpuA'',
      identityId = ''did:a'',
      allDocs = Fulfilled [\<lparr>entryKey = ''int_1_a'', entryValue = sampleIntention\<rparr>,
                           \<lparr>entryKey = ''int_2_b'', entryValue = laterIntention\<rparr>],
      getDoc = (\<lambda>k. if k = ''int_1_a''
                      then Fulfilled (Some \<lparr>entryKey = ''int_1_a'', entryValue = sampleIntention\<rparr>)
                      else if k = ''int_2_b''
                      then Fulfilled (Some \<lparr>entryKey = ''int_2_b'', entryValue = laterIntention\<rparr>)
                      else Fulfilled None),
      putDoc = documentsPut,
      isNewDatabaseFlag = False, isJoinedViaInvitationFlag = False\<rparr>"

text \<open>A session with no peer in reach: no call settles.\<close>

definition unreachableDatabase :: database where
  "unreachableDatabase =
     \<lparr>dbName = ''syncengine-global-intentions'', dbAddress = ''/orbitdb/zdpuA'',
      identityId = ''did:a'', allDocs = Pending, getDoc = (\<lambda>k. Pending),
      putDoc = (\<lambda>i. Pending), isNewDatabaseFlag = False, isJoinedViaInvitationFlag = False\<rparr>"

text \<open>An embedding model that gives every text the same vector.\<close>

definition sampleEmbedder :: embedder where
  "sampleEmbedder text = Fulfilled [Finite 1, Finite 0]"

text \<open>A cache that works and is empty.\<close>

definition emptyCache :: cache where
  "emptyCache =
     \<lparr>openSucceeds = True, readSucceeds = True, writeSucceeds = True, objectStore = []\<rparr>"

definition sampleReadings :: create_readings where
  "sampleReadings =
     \<lparr>idNow = 5, idSuffix = ''k3x9'', createdNow = 5, updatedNow = 5, embeddedNow = 6\<rparr>"

definition sampleData :: intention_data where
  "sampleData =
     \<lparr>dataTitle = Some '' help moving '', dataDescription = None, dataLocation = None,
      dataGeo = None, dataTags = None, dataCategory = None\<rparr>"

definition blankData :: intention_data where
  "blankData = sampleData\<lparr>dataTitle := Some ''  ''\<rparr>"

definition longData :: intention_data where
  "longData = sampleData\<lparr>dataTitle := Some (replicate 201 CHR ''a'')\<rparr>"

text \<open>What \<open>createIntention\<close> makes of \<open>sampleData\<close> and of \<open>longData\<close>.\<close>

definition createdSample :: intention where
  "createdSample =
     \<lparr>docId = ''int_5_k3x9'', intentionId = ''int_5_k3x9'', title = ''help moving'',
      description = [], location = [], geo = None, status = ''active'',
      createdBy = ''did:a'', createdAt = 5, updatedAt = 5, tags = [], category = ''general'',
      embedding = Some [Finite 1, Finite 0], embeddedAt = Some 6, completedAt = None,
      archivedAt = None\<rparr>"

definition longCreated :: intention where
  "longCreated = createdSample\<lparr>title := replicate 201 CHR ''a''\<rparr>"

definition longForm :: form where
  "longForm =
     \<lparr>formTitle = replicate 201 CHR ''a'', formDescription = [], formLocation = [],
      formCategory = ''general'', formTags = []\<rparr>"

text \<open>Arguments of \<open>updateIntention\<close>: the object \<open>{}\<close>, and one that carries a title
  only.\<close>

definition emptyPatch :: intention_patch where
  "emptyPatch =
     \<lparr>patchDocId = None, patchIntentionId = None, patchTitle = None, patchDescription = None,
      patchLocation = None, patchGeo = None, patchStatus = None, patchCreatedBy = None,
      patchCreatedAt = None, patchUpdatedAt = None, patchTags = None, patchCategory = None,
      patchEmbedding = None, patchEmbeddedAt = None, patchCompletedAt = None,
      patchArchivedAt = None\<rparr>"

definition titlePatch :: intention_patch where
  "titlePatch = emptyPatch\<lparr>patchTitle := Some ''help moving a piano''\<rparr>"

text \<open>A page opened from an invitation link, with a remembered address from before, and
  the same page after the failed invitation was cleared from it; a store where the
  invited address opens, one where the remembered address opens, one where nothing
  opens; a transport whose dials succeed; a decoder that leaves its argument as it is,
  and one that refuses a lone percent sign; a link whose \<open>peers\<close> value is that sign.\<close>

definition sampleBrowser :: browser where
  "sampleBrowser =
     \<lparr>urlQuery = [(''db'', ''/orbitdb/zdpuB''), (''peers'', ''/ip4/203.0.113.7/tcp/4001/ws'')],
      rememberedAddress = Some ''/orbitdb/zdpuA''\<rparr>"

definition clearedBrowser :: browser where
  "clearedBrowser = \<lparr>urlQuery = [], rememberedAddress = Some ''/orbitdb/zdpuA''\<rparr>"

definition malformedBrowser :: browser where
  "malformedBrowser =
     \<lparr>urlQuery = [(''db'', ''/orbitdb/zdpuB''), (''peers'', ''%'')],
      rememberedAddress = Some ''/orbitdb/zdpuA''\<rparr>"

definition invitedDatabase :: database where
  "invitedDatabase = sampleDatabase\<lparr>dbAddress := ''/orbitdb/zdpuB''\<rparr>"

definition invitedStore :: orbitdb where
  "invitedStore =
     \<lparr>openStore = (\<lambda>address create.
        if address = ''/orbitdb/zdpuB'' \<and> \<not> create then Fulfilled invitedDatabase else Pending)\<rparr>"

definition rememberedStore :: orbitdb where
  "rememberedStore =
     \<lparr>openStore = (\<lambda>address create.
        if address = ''/orbitdb/zdpuA'' \<and> \<not> create then Fulfilled sampleDatabase else Pending)\<rparr>"

definition deadStore :: orbitdb where
  "deadStore = \<lparr>openStore = (\<lambda>address create. Pending)\<rparr>"

definition sampleNode :: libp2p where
  "sampleNode = \<lparr>dial = (\<lambda>address. Fulfilled ())\<rparr>"

definition plainDecode :: "string \<Rightarrow> string option" where
  "plainDecode s = Some s"

definition strictDecode :: "string \<Rightarrow> string option" where
  "strictDecode s = (if s = ''%'' then None else Some s)"






text \<open>A form that passes the checks, and an intention whose embedding is the zero
  vector.\<close>

definition sampleForm :: form where
  "sampleForm =
     \<lparr>formTitle = '' help moving '', formDescription = ''furniture'', formLocation = [],
      formCategory = ''request'', formTags = ''boxes, van''\<rparr>"

definition zeroEmbedded :: intention where
  "zeroEmbedded = sampleIntention\<lparr>embedding := Some [Finite 0, Finite 0]\<rparr>"

section \<open>Properties of the number model\<close>


lemma jle_trans: "jle a b \<Longrightarrow> jle b c \<Longrightarrow> jle a c"
  by (cases a; cases b; cases c) auto

lemma jle_total: "a \<noteq> NaN \<Longrightarrow> b \<noteq> NaN \<Longrightarrow> jle a b \<or> jle b a"
  by (cases a; cases b) auto

lemma jgt_jsub_zero: "a \<noteq> NaN \<Longrightarrow> b \<noteq> NaN \<Longrightarrow> jgt (jsub b a) (Finite 0) = (\<not> jle b a)"
  by (cases a; cases b) (auto simp: jsub_def)

lemma jsqrt_zero_iff: "jsqrt n = Finite 0 \<longleftrightarrow> n = Finite 0"
  by (cases n) (auto split: if_splits)

lemma jmul_self_nonneg: "nonnegAcc (jmul a a)"
  by (cases a) (auto simp: nonnegAcc_def)

lemma jmul_self_zero: "jmul a a = Finite 0 \<longleftrightarrow> a = Finite 0"
  by (cases a) auto

lemma jadd_nonneg: "nonnegAcc a \<Longrightarrow> nonnegAcc b \<Longrightarrow> nonnegAcc (jadd a b)"
  by (cases a; cases b) (auto simp: nonnegAcc_def)

lemma jadd_nonneg_zero:
  "nonnegAcc a \<Longrightarrow> nonnegAcc b \<Longrightarrow> jadd a b = Finite 0 \<longleftrightarrow> a = Finite 0 \<and> b = Finite 0"
  by (cases a; cases b) (auto simp: nonnegAcc_def add_nonneg_eq_0_iff)

lemma jmul_zero_left: "zeroOrNaN (jmul (Finite 0) b)"
  by (cases b) (auto simp: zeroOrNaN_def)

lemma jmul_zero_right: "zeroOrNaN (jmul a (Finite 0))"
  by (cases a) (auto simp: zeroOrNaN_def)

lemma jadd_zeroOrNaN: "zeroOrNaN a \<Longrightarrow> zeroOrNaN b \<Longrightarrow> zeroOrNaN (jadd a b)"
  by (auto simp: zeroOrNaN_def)

lemma jdiv_zero_norm:
  assumes "zeroOrNaN d" and "p = Finite 0 \<or> q = Finite 0"
  shows "jdiv d (jmul p q) = NaN"
proof -
  have "zeroOrNaN (jmul p q)"
    using assms(2) jmul_zero_left jmul_zero_right by auto
  then show ?thesis
    using assms(1) by (auto simp: zeroOrNaN_def)
qed

section \<open>Geo score\<close>

lemma normalizeGeoScore_Finite:
  "normalizeGeoScore (Finite d) None = Finite (max 0 (1 - d / 100))"
  by (simp add: normalizeGeoScore_def jsub_def)

lemma normalizeGeoScore_antimono:
  assumes "jle d1 d2"
  shows "jle (normalizeGeoScore d2 None) (normalizeGeoScore d1 None)"
  using assms
  by (cases d1; cases d2)
     (auto simp: normalizeGeoScore_def jsub_def signedInfinity_def max_def)

lemma geoDistance_absent: "geoDistance None g = PosInfinity \<and> geoDistance g None = PosInfinity"
  by (simp add: geoDistance_def split: option.splits prod.splits)

text \<open>
  C7. With the default \<open>maxDistance\<close> of 100, the geo score of a finite distance \<open>d\<close> is
  \<open>max 0 (1 - d / 100)\<close>: 1 at distance 0 and 0 from 100 km on. It is 0 for the distance
  \<open>Infinity\<close>, which is what \<open>geoDistance\<close> returns when a point is absent, and a larger
  distance never has a larger score.
\<close>

theorem normalizeGeoScore_default:
  "normalizeGeoScore (Finite d) None = Finite (max 0 (1 - d / 100))
   \<and> normalizeGeoScore (Finite 0) None = Finite 1
   \<and> (100 \<le> d \<longrightarrow> normalizeGeoScore (Finite d) None = Finite 0)
   \<and> normalizeGeoScore PosInfinity None = Finite 0
   \<and> geoDistance None g = PosInfinity \<and> geoDistance g None = PosInfinity
   \<and> (jle d1 d2 \<longrightarrow> jle (normalizeGeoScore d2 None) (normalizeGeoScore d1 None))"
proof -
  have "normalizeGeoScore (Finite 0) None = Finite 1"
    by (simp add: normalizeGeoScore_Finite)
  moreover have "100 \<le> d \<longrightarrow> normalizeGeoScore (Finite d) None = Finite 0"
    by (simp add: normalizeGeoScore_Finite)
  moreover have "normalizeGeoScore PosInfinity None = Finite 0"
    by (simp add: normalizeGeoScore_def)
  ultimately show ?thesis
    using normalizeGeoScore_Finite normalizeGeoScore_antimono geoDistance_absent by blast
qed

theorem normalizeGeoScore_default_witness:
  "(100::real) \<le> 150 \<and> normalizeGeoScore (Finite 150) None = Finite 0
   \<and> jle (Finite 20) (Finite 50)
   \<and> jle (normalizeGeoScore (Finite 50) None) (normalizeGeoScore (Finite 20) None)"
  using normalizeGeoScore_default [of 150 None "Finite 20" "Finite 50"] by simp

section \<open>Cosine similarity\<close>

lemma cosineLoop_normA_zero:
  assumes "length as = length bs" and "nonnegAcc na"
    and "cosineLoop as bs (d, na, nb) = (d', Finite 0, nb')"
  shows "na = Finite 0 \<and> (\<forall>a\<in>set as. a = Finite 0)"
  using assms
proof (induction as bs arbitrary: d na nb rule: list_induct2)
  case Nil
  then show ?case by simp
next
  case (Cons a as b bs)
  from Cons.prems(2)
  have "cosineLoop as bs (jadd d (jmul a b), jadd na (jmul a a), jadd nb (jmul b b))
          = (d', Finite 0, nb')"
    by simp
  moreover have "nonnegAcc (jadd na (jmul a a))"
    using Cons.prems(1) by (simp add: jadd_nonneg jmul_self_nonneg)
  ultimately have "jadd na (jmul a a) = Finite 0 \<and> (\<forall>a\<in>set as. a = Finite 0)"
    using Cons.IH by blast
  then show ?case
    using Cons.prems(1) by (simp add: jadd_nonneg_zero jmul_self_nonneg jmul_self_zero)
qed

lemma cosineLoop_normB_zero:
  assumes "length as = length bs" and "nonnegAcc nb"
    and "cosineLoop as bs (d, na, nb) = (d', na', Finite 0)"
  shows "nb = Finite 0 \<and> (\<forall>b\<in>set bs. b = Finite 0)"
  using assms
proof (induction as bs arbitrary: d na nb rule: list_induct2)
  case Nil
  then show ?case by simp
next
  case (Cons a as b bs)
  from Cons.prems(2)
  have "cosineLoop as bs (jadd d (jmul a b), jadd na (jmul a a), jadd nb (jmul b b))
          = (d', na', Finite 0)"
    by simp
  moreover have "nonnegAcc (jadd nb (jmul b b))"
    using Cons.prems(1) by (simp add: jadd_nonneg jmul_self_nonneg)
  ultimately have "jadd nb (jmul b b) = Finite 0 \<and> (\<forall>b\<in>set bs. b = Finite 0)"
    using Cons.IH by blast
  then show ?case
    using Cons.prems(1) by (simp add: jadd_nonneg_zero jmul_self_nonneg jmul_self_zero)
qed

lemma cosineLoop_dot_zero:
  assumes "length as = length bs" and "zeroOrNaN d"
    and "(\<forall>a\<in>set as. a = Finite 0) \<or> (\<forall>b\<in>set bs. b = Finite 0)"
  shows "zeroOrNaN (fst (cosineLoop as bs (d, na, nb)))"
  using assms
proof (induction as bs arbitrary: d na nb rule: list_induct2)
  case Nil
  then show ?case by simp
next
  case (Cons a as b bs)
  have "zeroOrNaN (jmul a b)"
    using Cons.prems(2) jmul_zero_left jmul_zero_right by auto
  then have "zeroOrNaN (jadd d (jmul a b))"
    using Cons.prems(1) by (simp add: jadd_zeroOrNaN)
  then show ?case
    using Cons.IH Cons.prems(2) by auto
qed

lemma cosineSimilarity_NaN:
  assumes "length vecA = length vecB"
    and "cosineLoop vecA vecB (Finite 0, Finite 0, Finite 0) = (dotProduct, normA, normB)"
    and "jsqrt normA = Finite 0 \<or> jsqrt normB = Finite 0"
  shows "cosineSimilarity vecA vecB = Inr NaN"
proof -
  have acc: "nonnegAcc (Finite 0)"
    by (simp add: nonnegAcc_def)
  have "(\<forall>a\<in>set vecA. a = Finite 0) \<or> (\<forall>b\<in>set vecB. b = Finite 0)"
    using assms cosineLoop_normA_zero[OF assms(1) acc] cosineLoop_normB_zero[OF assms(1) acc]
    by (auto simp: jsqrt_zero_iff)
  then have "zeroOrNaN (fst (cosineLoop vecA vecB (Finite 0, Finite 0, Finite 0)))"
    using cosineLoop_dot_zero[OF assms(1)] by (simp add: zeroOrNaN_def)
  then have "zeroOrNaN dotProduct"
    using assms(2) by simp
  then have "jdiv dotProduct (jmul (jsqrt normA) (jsqrt normB)) = NaN"
    using assms(3) by (rule jdiv_zero_norm)
  then show ?thesis
    using assms(1,2) by (simp add: cosineSimilarity_def)
qed

text \<open>
  C8. \<open>cosineSimilarity\<close> divides by the product of the two norms with no guard: when
  the vectors have the same length and the norm the loop computed for either is zero,
  the similarity is \<open>NaN\<close>, not 0. The ranking has no special case either: an intention
  with that embedding is scored with \<open>NaN\<close> as its semantic and as its combined score.
\<close>

theorem cosineSimilarity_zero_norm:
  assumes "length vecA = length vecB"
    and "cosineLoop vecA vecB (Finite 0, Finite 0, Finite 0) = (dotProduct, normA, normB)"
    and "jsqrt normA = Finite 0 \<or> jsqrt normB = Finite 0"
  shows "cosineSimilarity vecA vecB = Inr NaN
     \<and> (embedding i = Some vecB \<longrightarrow>
          (\<exists>r. scoreIntention vecA loc sw gw i = Inr (Some r)
             \<and> semantic (score r) = NaN \<and> combined (score r) = NaN))"
proof -
  have sim: "cosineSimilarity vecA vecB = Inr NaN"
    using assms by (rule cosineSimilarity_NaN)
  then show ?thesis
    by (simp add: scoreIntention_def Let_def)
qed

theorem cosineSimilarity_zero_norm_witness:
  "length [Finite 1, Finite 2] = length [Finite 0, Finite 0]
   \<and> cosineLoop [Finite 1, Finite 2] [Finite 0, Finite 0] (Finite 0, Finite 0, Finite 0)
       = (Finite 0, Finite 5, Finite 0)
   \<and> jsqrt (Finite 0) = Finite 0
   \<and> cosineSimilarity [Finite 1, Finite 2] [Finite 0, Finite 0] = Inr NaN
   \<and> embedding zeroEmbedded = Some [Finite 0, Finite 0]
   \<and> map_sum id (map_option (\<lambda>r. (semantic (score r), combined (score r))))
         (scoreIntention [Finite 1, Finite 2] None (Finite (7 / 10)) (Finite (3 / 10))
            zeroEmbedded)
       = Inr (Some (NaN, NaN))"
proof -
  have l: "length [Finite 1, Finite 2] = length [Finite 0, Finite 0]"
    by simp
  have c: "cosineLoop [Finite 1, Finite 2] [Finite 0, Finite 0] (Finite 0, Finite 0, Finite 0)
       = (Finite 0, Finite 5, Finite 0)"
    by simp
  have z: "jsqrt (Finite 5) = Finite 0 \<or> jsqrt (Finite 0) = Finite 0"
    by simp
  have e: "embedding zeroEmbedded = Some [Finite 0, Finite 0]"
    by (simp add: zeroEmbedded_def)
  from cosineSimilarity_zero_norm
         [OF l c z, of zeroEmbedded None "Finite (7 / 10)" "Finite (3 / 10)"] e
  show ?thesis
    by auto
qed

section \<open>Sorting\<close>

lemma set_insertSorted: "set (insertSorted cmp x ys) = insert x (set ys)"
  by (induction ys) auto

lemma mset_insertSorted: "mset (insertSorted cmp x ys) = add_mset x (mset ys)"
  by (induction ys) auto

lemma mset_arraySort: "mset (arraySort cmp xs) = mset xs"
  by (induction xs) (auto simp: arraySort_def mset_insertSorted)

lemma set_arraySort: "set (arraySort cmp xs) = set xs"
  using mset_arraySort[of cmp xs] by (metis set_mset_mset)

lemma length_arraySort: "length (arraySort cmp xs) = length xs"
  using mset_arraySort[of cmp xs] by (metis size_mset)

text \<open>A comparator \<open>(a, b) => key(b) - key(a)\<close> on keys that are not \<open>NaN\<close> sorts by
  descending key.\<close>

lemma sorted_insertSorted:
  assumes "k x \<noteq> NaN" and "\<forall>y\<in>set ys. k y \<noteq> NaN"
    and "sorted_wrt (\<lambda>a b. jle (k b) (k a)) ys"
  shows "sorted_wrt (\<lambda>a b. jle (k b) (k a)) (insertSorted (\<lambda>a b. jsub (k b) (k a)) x ys)"
  using assms
proof (induction ys)
  case Nil
  then show ?case by simp
next
  case (Cons y ys)
  show ?case
  proof (cases "jle (k y) (k x)")
    case True
    then have "\<forall>z\<in>set ys. jle (k z) (k x)"
      using Cons.prems(3) jle_trans by auto
    then show ?thesis
      using True Cons.prems by (simp add: jgt_jsub_zero)
  next
    case False
    then have "jle (k x) (k y)"
      using Cons.prems(1,2) jle_total[of "k x" "k y"] by auto
    then show ?thesis
      using False Cons by (simp add: jgt_jsub_zero set_insertSorted)
  qed
qed

lemma sorted_arraySort:
  assumes "\<forall>y\<in>set xs. k y \<noteq> NaN"
  shows "sorted_wrt (\<lambda>a b. jle (k b) (k a)) (arraySort (\<lambda>a b. jsub (k b) (k a)) xs)"
  using assms
proof (induction xs)
  case Nil
  then show ?case by (simp add: arraySort_def)
next
  case (Cons x xs)
  have "sorted_wrt (\<lambda>a b. jle (k b) (k a)) (arraySort (\<lambda>a b. jsub (k b) (k a)) xs)"
    using Cons by simp
  moreover have "\<forall>y\<in>set (arraySort (\<lambda>a b. jsub (k b) (k a)) xs). k y \<noteq> NaN"
    using Cons.prems by (simp add: set_arraySort)
  ultimately show ?case
    using Cons.prems sorted_insertSorted[of k x "arraySort (\<lambda>a b. jsub (k b) (k a)) xs"]
    by (simp add: arraySort_def)
qed

lemma newestFirst_sorted:
  "sorted_wrt (\<lambda>a b. createdAt b \<le> createdAt a) (arraySort byCreatedAtDesc xs)"
proof -
  have "sorted_wrt (\<lambda>a b. jle (Finite (of_int (createdAt b))) (Finite (of_int (createdAt a))))
          (arraySort (\<lambda>a b. jsub (Finite (of_int (createdAt b))) (Finite (of_int (createdAt a)))) xs)"
    by (rule sorted_arraySort) simp
  then show ?thesis
    by (simp add: byCreatedAtDesc_def[abs_def])
qed

section \<open>Reading the intentions\<close>

text \<open>
  C10. Whatever the order in which the records are stored, the list \<open>loadIntentions\<close>
  returns and the list \<open>loadIntentionsFromCache\<close> returns are in non-increasing
  \<open>createdAt\<close> order; a read of the store that succeeds on a session that is not new
  returns exactly the stored records, and so does a read of the cache that succeeds.
\<close>

theorem intentions_newest_first:
  "(fst (loadIntentions database isNew c) = Fulfilled xs \<longrightarrow>
      sorted_wrt (\<lambda>a b. createdAt b \<le> createdAt a) xs)
   \<and> (loadIntentionsFromCache c = Fulfilled ys \<longrightarrow>
      sorted_wrt (\<lambda>a b. createdAt b \<le> createdAt a) ys)
   \<and> (database = Some db \<and> \<not> isNew \<and> allDocs db = Fulfilled es \<longrightarrow>
        (\<exists>zs. fst (loadIntentions database isNew c) = Fulfilled zs
            \<and> mset zs = mset (map entryValue es)))
   \<and> (openSucceeds c \<and> readSucceeds c \<longrightarrow>
        (\<exists>zs. loadIntentionsFromCache c = Fulfilled zs \<and> mset zs = mset (objectStore c)))"
proof -
  have a: "fst (loadIntentions database isNew c) = Fulfilled xs \<longrightarrow>
      sorted_wrt (\<lambda>a b. createdAt b \<le> createdAt a) xs"
    by (auto simp: loadIntentions_def raceTimeout_def Let_def newestFirst_sorted
             split: option.splits promise.splits)
  have b: "loadIntentionsFromCache c = Fulfilled ys \<longrightarrow>
      sorted_wrt (\<lambda>a b. createdAt b \<le> createdAt a) ys"
    by (auto simp: loadIntentionsFromCache_def newestFirst_sorted split: if_splits)
  have c: "database = Some db \<and> \<not> isNew \<and> allDocs db = Fulfilled es \<longrightarrow>
        (\<exists>zs. fst (loadIntentions database isNew c) = Fulfilled zs
            \<and> mset zs = mset (map entryValue es))"
    by (simp add: loadIntentions_def raceTimeout_def Let_def mset_arraySort)
  have d: "openSucceeds c \<and> readSucceeds c \<longrightarrow>
        (\<exists>zs. loadIntentionsFromCache c = Fulfilled zs \<and> mset zs = mset (objectStore c))"
    by (simp add: loadIntentionsFromCache_def mset_arraySort)
  show ?thesis
    using a b c d by blast
qed

theorem intentions_newest_first_witness:
  "allDocs sampleDatabase
     = Fulfilled [\<lparr>entryKey = ''int_1_a'', entryValue = sampleIntention\<rparr>,
                  \<lparr>entryKey = ''int_2_b'', entryValue = laterIntention\<rparr>]
   \<and> fst (loadIntentions (Some sampleDatabase) False sampleCache)
       = Fulfilled [laterIntention, sampleIntention]
   \<and> openSucceeds sampleCache \<and> readSucceeds sampleCache
   \<and> loadIntentionsFromCache sampleCache = Fulfilled [laterIntention, sampleIntention]
   \<and> sorted_wrt (\<lambda>a b. createdAt b \<le> createdAt a) [laterIntention, sampleIntention]"
proof -
  have stored: "createdAt sampleIntention = 1 \<and> createdAt laterIntention = 2"
    by (simp add: sampleIntention_def laterIntention_def)
  have store: "fst (loadIntentions (Some sampleDatabase) False sampleCache)
       = Fulfilled [laterIntention, sampleIntention]"
    using stored
    by (simp add: sampleDatabase_def loadIntentions_def raceTimeout_def arraySort_def
          byCreatedAtDesc_def jsub_def Let_def)
  have cached: "loadIntentionsFromCache sampleCache = Fulfilled [laterIntention, sampleIntention]"
    using stored
    by (simp add: sampleCache_def loadIntentionsFromCache_def arraySort_def
          byCreatedAtDesc_def jsub_def)
  have "sorted_wrt (\<lambda>a b. createdAt b \<le> createdAt a) [laterIntention, sampleIntention]"
    using store
      intentions_newest_first
        [of "Some sampleDatabase" False sampleCache "[laterIntention, sampleIntention]"]
    by blast
  then show ?thesis
    using store cached by (simp add: sampleDatabase_def sampleCache_def)
qed

text \<open>
  C1, as the code has it. On a session that is not new, a read of the store that fails
  or is still pending at its deadline makes \<open>loadIntentions\<close> return the empty list:
  the failure is not propagated, the cache is neither read nor changed.
\<close>

theorem loadIntentions_read_failure:
  assumes "allDocs db = Rejected e \<or> allDocs db = Pending"
  shows "loadIntentions (Some db) False c = (Fulfilled [], c)"
  using assms by (auto simp: loadIntentions_def raceTimeout_def)

theorem loadIntentions_read_failure_witness:
  "allDocs unreachableDatabase = Pending
   \<and> loadIntentions (Some unreachableDatabase) False sampleCache = (Fulfilled [], sampleCache)"
  using loadIntentions_read_failure [of unreachableDatabase StoreFailure sampleCache]
  by (simp add: unreachableDatabase_def)

text \<open>The claim as stated fails: the read times out, the cache holds a snapshot of two
  records, and the call returns the empty list.\<close>

theorem loadIntentions_cache_counterexample:
  "allDocs unreachableDatabase = Pending
   \<and> loadIntentionsFromCache sampleCache = Fulfilled [laterIntention, sampleIntention]
   \<and> fst (loadIntentions (Some unreachableDatabase) False sampleCache) = Fulfilled []"
proof -
  have "createdAt sampleIntention = 1 \<and> createdAt laterIntention = 2"
    by (simp add: sampleIntention_def laterIntention_def)
  then have "loadIntentionsFromCache sampleCache = Fulfilled [laterIntention, sampleIntention]"
    by (simp add: sampleCache_def loadIntentionsFromCache_def arraySort_def
          byCreatedAtDesc_def jsub_def)
  then show ?thesis
    by (simp add: unreachableDatabase_def loadIntentions_def raceTimeout_def)
qed

section \<open>Creating an intention\<close>

lemma storePut_mem: "x \<in> set (storePut x s)"
  by (induction s) auto

lemma length_trim: "length (trim s) \<le> length s"
proof -
  have "length (trim s) \<le> length (rev (dropWhile isWhiteSpace s))"
    unfolding trim_def
    using length_dropWhile_le[of isWhiteSpace "rev (dropWhile isWhiteSpace s)"] by simp
  also have "\<dots> \<le> length s"
    using length_dropWhile_le[of isWhiteSpace s] by simp
  finally show ?thesis .
qed

lemma trim_replicate:
  assumes "\<not> isWhiteSpace c"
  shows "trim (replicate (Suc n) c) = replicate (Suc n) c"
proof -
  have "dropWhile isWhiteSpace (replicate (Suc n) c) = replicate (Suc n) c"
    using assms by simp
  moreover have "rev (replicate (Suc n) c) = replicate (Suc n) c"
    by (rule rev_replicate)
  ultimately show ?thesis
    unfolding trim_def by metis
qed

lemma trim_long: "trim (replicate 201 CHR ''a'') = replicate 201 CHR ''a''"
  using trim_replicate[of "CHR ''a''" 200] by (simp add: isWhiteSpace_def)

lemma trim_sample: "trim '' help moving '' = ''help moving''"
  by (simp add: trim_def isWhiteSpace_def)

lemma showInt_5: "showInt 5 = ''5''"
  by (simp add: showInt_def)

lemma saved_mem:
  "openSucceeds c \<and> writeSucceeds c \<Longrightarrow>
     x \<in> set (objectStore (saveIntentionsToCache c (ys @ [x])))"
  by (simp add: saveIntentionsToCache_def storePut_mem)

lemma save_flags:
  "openSucceeds (saveIntentionsToCache c xs) = openSucceeds c
   \<and> readSucceeds (saveIntentionsToCache c xs) = readSucceeds c
   \<and> writeSucceeds (saveIntentionsToCache c xs) = writeSucceeds c"
  by (simp add: saveIntentionsToCache_def)

lemma cache_read_mem:
  "openSucceeds c \<Longrightarrow> readSucceeds c \<Longrightarrow> x \<in> set (objectStore c) \<Longrightarrow>
     \<exists>ys. loadIntentionsFromCache c = Fulfilled ys \<and> x \<in> set ys"
  by (simp add: loadIntentionsFromCache_def set_arraySort)

text \<open>The write to the store is reached on one path only.\<close>

lemma createIntention_reaches_write:
  assumes "createIntention gen r (Some db) d c = (res, c', effects)"
    and "StorePut document \<in> set effects"
  shows "\<exists>t e snapshot x. dataTitle d = Some t \<and> trim t \<noteq> []
      \<and> gen (embedText (newIntention r db d t)) = Fulfilled e
      \<and> x = (newIntention r db d t)\<lparr>embedding := Some e, embeddedAt := Some (embeddedNow r)\<rparr>
      \<and> document = asObject x
      \<and> loadIntentionsFromCache c = Fulfilled snapshot
      \<and> res = Fulfilled x
      \<and> c' = saveIntentionsToCache c (snapshot @ [x])
      \<and> effects = [EmbedCall (embedText (newIntention r db d t)), CacheRead,
                   CacheWrite (snapshot @ [x]), StorePut (asObject x)]"
  using assms
  by (auto simp: createIntention_def Let_def embedIntention_def await_def
           split: promise.splits if_splits option.splits)

lemma new_sample:
  "identityId db = ''did:a'' \<Longrightarrow>
   newIntention sampleReadings db sampleData '' help moving ''
     = createdSample\<lparr>embedding := None, embeddedAt := None\<rparr>"
  by (simp add: newIntention_def sampleReadings_def sampleData_def createdSample_def trim_sample
        showInt_5 stringOr_def orDefault_def Let_def)

lemma new_long:
  "identityId db = ''did:a'' \<Longrightarrow>
   newIntention sampleReadings db longData (replicate 201 CHR ''a'')
     = longCreated\<lparr>embedding := None, embeddedAt := None\<rparr>"
  by (simp add: newIntention_def sampleReadings_def sampleData_def longData_def longCreated_def
        createdSample_def trim_long showInt_5 stringOr_def orDefault_def Let_def)

lemma embed_sample:
  "embedIntention sampleEmbedder (embeddedNow sampleReadings)
      (createdSample\<lparr>embedding := None, embeddedAt := None\<rparr>) = Fulfilled createdSample"
  by (simp add: embedIntention_def await_def sampleEmbedder_def createdSample_def
        sampleReadings_def)

lemma embed_long:
  "embedIntention sampleEmbedder (embeddedNow sampleReadings)
      (longCreated\<lparr>embedding := None, embeddedAt := None\<rparr>) = Fulfilled longCreated"
  by (simp add: embedIntention_def await_def sampleEmbedder_def createdSample_def
        longCreated_def sampleReadings_def)

lemma created_sample:
  assumes l: "loadIntentionsFromCache c = Fulfilled []"
  shows "createIntention sampleEmbedder sampleReadings (Some unreachableDatabase) sampleData c
   = (Fulfilled createdSample, saveIntentionsToCache c [createdSample],
      [EmbedCall ''help moving '', CacheRead, CacheWrite [createdSample],
       StorePut (asObject createdSample)])"
proof -
  have t: "dataTitle sampleData = Some '' help moving ''"
    by (simp add: sampleData_def)
  have i: "identityId unreachableDatabase = ''did:a''"
    by (simp add: unreachableDatabase_def)
  have e: "embedText (createdSample\<lparr>embedding := None, embeddedAt := None\<rparr>) = ''help moving ''"
    by (simp add: embedText_def createdSample_def)
  show ?thesis
    by (simp add: createIntention_def t trim_sample new_sample[OF i] embed_sample l e Let_def
          split: promise.splits)
qed

lemma created_long:
  "createIntention sampleEmbedder sampleReadings (Some sampleDatabase) longData emptyCache
   = (Fulfilled longCreated, emptyCache\<lparr>objectStore := [longCreated]\<rparr>,
      [EmbedCall (replicate 201 CHR ''a'' @ '' ''), CacheRead, CacheWrite [longCreated],
       StorePut (asObject longCreated)])"
proof -
  have t: "dataTitle longData = Some (replicate 201 CHR ''a'')"
    by (simp add: longData_def)
  have i: "identityId sampleDatabase = ''did:a''"
    by (simp add: sampleDatabase_def)
  have l: "loadIntentionsFromCache emptyCache = Fulfilled []"
    by (simp add: loadIntentionsFromCache_def emptyCache_def arraySort_def)
  have s: "saveIntentionsToCache emptyCache [longCreated]
             = emptyCache\<lparr>objectStore := [longCreated]\<rparr>"
    by (simp add: saveIntentionsToCache_def emptyCache_def)
  have e: "embedText (longCreated\<lparr>embedding := None, embeddedAt := None\<rparr>)
             = replicate 201 CHR ''a'' @ '' ''"
    by (simp add: embedText_def createdSample_def longCreated_def)
  have n: "replicate 201 CHR ''a'' \<noteq> []"
    by simp
  show ?thesis
    using n
    by (simp add: createIntention_def t trim_long new_long[OF i] embed_long l s e Let_def
          split: promise.splits)
qed

text \<open>
  With a cache that works, \<open>createIntention\<close> does what its comments say. For a title
  that is not empty after trimming, if the write to the store is reached and is rejected
  or still pending at its deadline, the call returns the created record, title trimmed
  and embedding set; the save of the cache snapshot extended by the record was issued
  before the write; and when the cache opens and its transaction completes, the record
  is in the cache afterwards and a read of the cache returns it.
\<close>

lemma createIntention_write_failure:
  assumes "dataTitle d = Some t" and "trim t \<noteq> []"
    and "createIntention gen r (Some db) d c = (res, c', effects)"
    and "StorePut document \<in> set effects"
    and "putDoc db document = Rejected err \<or> putDoc db document = Pending"
  shows "\<exists>x. document = asObject x \<and> res = Fulfilled x
     \<and> (\<exists>e. gen (embedText (newIntention r db d t)) = Fulfilled e
           \<and> x = (newIntention r db d t)\<lparr>embedding := Some e, embeddedAt := Some (embeddedNow r)\<rparr>)
     \<and> (\<exists>snapshot. loadIntentionsFromCache c = Fulfilled snapshot
           \<and> effects = [EmbedCall (embedText (newIntention r db d t)), CacheRead,
                        CacheWrite (snapshot @ [x]), StorePut (asObject x)])
     \<and> (openSucceeds c \<and> writeSucceeds c \<longrightarrow>
           x \<in> set (objectStore c')
           \<and> (readSucceeds c \<longrightarrow>
                (\<exists>ys. loadIntentionsFromCache c' = Fulfilled ys \<and> x \<in> set ys)))"
proof -
  obtain t' e snapshot x where reach:
    "dataTitle d = Some t'"
    "gen (embedText (newIntention r db d t')) = Fulfilled e"
    "x = (newIntention r db d t')\<lparr>embedding := Some e, embeddedAt := Some (embeddedNow r)\<rparr>"
    "document = asObject x"
    "loadIntentionsFromCache c = Fulfilled snapshot"
    "res = Fulfilled x"
    "c' = saveIntentionsToCache c (snapshot @ [x])"
    "effects = [EmbedCall (embedText (newIntention r db d t')), CacheRead,
                CacheWrite (snapshot @ [x]), StorePut (asObject x)]"
    using createIntention_reaches_write[OF assms(3,4)] by blast
  have t: "t' = t"
    using reach(1) assms(1) by simp
  have cached: "openSucceeds c \<and> writeSucceeds c \<longrightarrow> x \<in> set (objectStore c')"
    using reach(7) saved_mem by blast
  have "openSucceeds c \<and> writeSucceeds c \<longrightarrow> readSucceeds c \<longrightarrow>
          (\<exists>ys. loadIntentionsFromCache c' = Fulfilled ys \<and> x \<in> set ys)"
    using cached reach(7) cache_read_mem[of c' x] save_flags[of c "snapshot @ [x]"] by auto
  then show ?thesis
    using reach t cached by auto
qed

lemma createIntention_write_failure_example:
  "createIntention sampleEmbedder sampleReadings (Some unreachableDatabase) sampleData emptyCache
       = (Fulfilled createdSample, emptyCache\<lparr>objectStore := [createdSample]\<rparr>,
          [EmbedCall ''help moving '', CacheRead, CacheWrite [createdSample],
           StorePut (asObject createdSample)])
   \<and> putDoc unreachableDatabase (asObject createdSample) = Pending
   \<and> loadIntentionsFromCache (emptyCache\<lparr>objectStore := [createdSample]\<rparr>)
       = Fulfilled [createdSample]"
proof -
  have l: "loadIntentionsFromCache emptyCache = Fulfilled []"
    by (simp add: loadIntentionsFromCache_def emptyCache_def arraySort_def)
  have s: "saveIntentionsToCache emptyCache [createdSample]
             = emptyCache\<lparr>objectStore := [createdSample]\<rparr>"
    by (simp add: saveIntentionsToCache_def emptyCache_def)
  have "loadIntentionsFromCache (emptyCache\<lparr>objectStore := [createdSample]\<rparr>)
       = Fulfilled [createdSample]"
    by (simp add: loadIntentionsFromCache_def emptyCache_def arraySort_def)
  then show ?thesis
    using created_sample[OF l] s by (simp add: unreachableDatabase_def)
qed

text \<open>
  C3. The code does not keep the claim when the cache cannot be opened. The title is
  valid and the write to the store is still pending at its 15 s deadline;
  \<open>loadIntentionsFromCache\<close> answers with the empty list, \<open>saveIntentionsToCache\<close> catches
  the failure of \<open>openCacheDB\<close> and saves nothing, and \<open>createIntention\<close> goes on, logs
  that the intention is cached and returns the record. The cache is as it was, empty: a
  read of it does not return the record, which is in neither the cache nor the store.
\<close>

theorem createIntention_broken_cache:
  "dataTitle sampleData = Some '' help moving ''
   \<and> putDoc unreachableDatabase (asObject createdSample) = Pending
   \<and> createIntention sampleEmbedder sampleReadings (Some unreachableDatabase) sampleData brokenCache
       = (Fulfilled createdSample, brokenCache,
          [EmbedCall ''help moving '', CacheRead, CacheWrite [createdSample],
           StorePut (asObject createdSample)])
   \<and> objectStore brokenCache = []
   \<and> loadIntentionsFromCache brokenCache = Fulfilled []"
proof -
  have l: "loadIntentionsFromCache brokenCache = Fulfilled []"
    by (simp add: loadIntentionsFromCache_def brokenCache_def)
  have s: "saveIntentionsToCache brokenCache [createdSample] = brokenCache"
    by (simp add: saveIntentionsToCache_def brokenCache_def)
  show ?thesis
    using created_sample[OF l] s l
    by (simp add: sampleData_def unreachableDatabase_def brokenCache_def)
qed

text \<open>
  C4, as the code has it. \<open>createIntention\<close> rejects a title that is missing or empty
  after trimming with \<open>TitleRequired\<close>, before any embedding, cache or store operation.
  The limits of 200 and 2000 characters are checked by \<open>handleSubmit\<close> of the creation
  form, which then sets an error message and dispatches no \<open>create\<close> event; what it does
  dispatch has a title that is not empty and at most 200 characters long, and a
  description of at most 2000.
\<close>

theorem createIntention_title_required:
  "((dataTitle d = None \<or> dataTitle d = Some t \<and> trim t = []) \<longrightarrow>
       createIntention gen r (Some db) d c = (Rejected TitleRequired, c, []))
   \<and> ((trim (formTitle f) = [] \<or> 200 < length (formTitle f)
          \<or> 2000 < length (formDescription f)) \<longrightarrow>
        (\<exists>message. handleSubmit f = Inl message))
   \<and> (handleSubmit f = Inr d' \<longrightarrow>
        (\<exists>t'. dataTitle d' = Some t' \<and> t' \<noteq> [] \<and> length t' \<le> 200)
        \<and> (\<exists>x. dataDescription d' = Some x \<and> length x \<le> 2000))"
proof -
  have a: "(dataTitle d = None \<or> dataTitle d = Some t \<and> trim t = []) \<longrightarrow>
       createIntention gen r (Some db) d c = (Rejected TitleRequired, c, [])"
    by (auto simp: createIntention_def)
  have b: "(trim (formTitle f) = [] \<or> 200 < length (formTitle f)
          \<or> 2000 < length (formDescription f)) \<longrightarrow>
        (\<exists>message. handleSubmit f = Inl message)"
    by (auto simp: handleSubmit_def)
  have c: "handleSubmit f = Inr d' \<longrightarrow>
        (\<exists>t'. dataTitle d' = Some t' \<and> t' \<noteq> [] \<and> length t' \<le> 200)
        \<and> (\<exists>x. dataDescription d' = Some x \<and> length x \<le> 2000)"
    using length_trim[of "formTitle f"] length_trim[of "formDescription f"]
    by (auto simp: handleSubmit_def split: if_splits)
  show ?thesis
    using a b c by blast
qed

theorem createIntention_title_required_witness:
  "dataTitle blankData = Some ''  '' \<and> trim ''  '' = []
   \<and> createIntention sampleEmbedder sampleReadings (Some sampleDatabase) blankData sampleCache
       = (Rejected TitleRequired, sampleCache, [])
   \<and> 200 < length (formTitle longForm)
   \<and> handleSubmit longForm = Inl ''title too long (max 200 chars)''
   \<and> handleSubmit sampleForm
       = Inr \<lparr>dataTitle = Some ''help moving'', dataDescription = Some ''furniture'',
               dataLocation = Some [], dataGeo = None, dataTags = Some [''boxes'', ''van''],
               dataCategory = Some ''request''\<rparr>"
proof -
  have t: "dataTitle blankData = Some ''  '' \<and> trim ''  '' = []"
    by (simp add: blankData_def trim_def isWhiteSpace_def)
  have f: "200 < length (formTitle longForm)"
    by (simp add: longForm_def)
  have l: "handleSubmit longForm = Inl ''title too long (max 200 chars)''"
    using f trim_long by (simp add: handleSubmit_def longForm_def)
  have ok: "handleSubmit sampleForm
       = Inr \<lparr>dataTitle = Some ''help moving'', dataDescription = Some ''furniture'',
               dataLocation = Some [], dataGeo = None, dataTags = Some [''boxes'', ''van''],
               dataCategory = Some ''request''\<rparr>"
    by (simp add: handleSubmit_def sampleForm_def trim_def isWhiteSpace_def)
  show ?thesis
    using t f l ok
      createIntention_title_required
        [of blankData "''  ''" sampleEmbedder sampleReadings sampleDatabase sampleCache
            sampleForm]
    by simp
qed

text \<open>The claim as stated fails: a title of 201 characters passes \<open>createIntention\<close>,
  which embeds it, saves it to the cache and writes it to the store.\<close>

theorem createIntention_long_title_counterexample:
  "dataTitle longData = Some (replicate 201 CHR ''a'')
   \<and> length (replicate 201 CHR ''a'') = 201
   \<and> createIntention sampleEmbedder sampleReadings (Some sampleDatabase) longData emptyCache
       = (Fulfilled longCreated, emptyCache\<lparr>objectStore := [longCreated]\<rparr>,
          [EmbedCall (replicate 201 CHR ''a'' @ '' ''), CacheRead, CacheWrite [longCreated],
           StorePut (asObject longCreated)])"
  using created_long by (simp add: longData_def)

section \<open>Updating an intention\<close>

text \<open>Nothing of the record the store holds reaches the object that is written back.\<close>

lemma updateIntention_drops_stored:
  assumes "wantedId \<noteq> []" and "getDoc db wantedId = Fulfilled (Some existing)"
    and "\<not> truthyString (patchTitle u)" and "\<not> truthyString (patchDescription u)"
  shows "updateIntention gen now embedNow (Some db) wantedId u
     = (await (putDoc db (u\<lparr>patchUpdatedAt := Some now\<rparr>))
          (\<lambda>done. Fulfilled (u\<lparr>patchUpdatedAt := Some now\<rparr>)),
        [StoreGet wantedId, StorePut (u\<lparr>patchUpdatedAt := Some now\<rparr>)])"
  using assms by (simp add: updateIntention_def Let_def)

lemma updateIntention_embeds_patch:
  assumes "wantedId \<noteq> []" and "getDoc db wantedId = Fulfilled (Some existing)"
    and "truthyString (patchTitle u) \<or> truthyString (patchDescription u)"
    and "gen (objectText (u\<lparr>patchUpdatedAt := Some now\<rparr>)) = Fulfilled e"
  shows "snd (updateIntention gen now embedNow (Some db) wantedId u)
     = [StoreGet wantedId, EmbedCall (objectText (u\<lparr>patchUpdatedAt := Some now\<rparr>)),
        StorePut (u\<lparr>patchUpdatedAt := Some now, patchEmbedding := Some (Some e),
                     patchEmbeddedAt := Some (Some embedNow)\<rparr>)]"
  using assms by (auto simp: updateIntention_def embedObject_def await_def Let_def)

text \<open>
  C5. The code does not keep the claim for a record the store holds. \<open>get\<close> answers with
  the entry of the record, not with an array, so \<open>existing[0]\<close> is \<open>undefined\<close> and
  nothing of the stored record is merged. For the empty patch the object handed to \<open>put\<close>
  is \<open>{updatedAt}\<close>: it carries no embedding and no \<open>intentionId\<close>, the store refuses it
  and the update throws. For a patch with a new title the embedding is computed from
  the title alone (the stored description is not in the text), and the object handed to
  \<open>put\<close> is the patch with \<open>updatedAt\<close>, \<open>embedding\<close> and \<open>embeddedAt\<close>, refused as well.
\<close>

theorem updateIntention_existing_record:
  "getDoc sampleDatabase ''int_1_a''
     = Fulfilled (Some \<lparr>entryKey = ''int_1_a'', entryValue = sampleIntention\<rparr>)
   \<and> embedding sampleIntention = Some [Finite 1, Finite 0]
   \<and> description sampleIntention = ''furniture''
   \<and> updateIntention sampleEmbedder 7 8 (Some sampleDatabase) ''int_1_a'' emptyPatch
       = (Rejected (MissingIndexField ''intentionId''),
          [StoreGet ''int_1_a'', StorePut (emptyPatch\<lparr>patchUpdatedAt := Some 7\<rparr>)])
   \<and> patchEmbedding (emptyPatch\<lparr>patchUpdatedAt := Some 7\<rparr>) = None
   \<and> updateIntention sampleEmbedder 7 8 (Some sampleDatabase) ''int_1_a'' titlePatch
       = (Rejected (MissingIndexField ''intentionId''),
          [StoreGet ''int_1_a'', EmbedCall ''help moving a piano '',
           StorePut (titlePatch\<lparr>patchUpdatedAt := Some 7,
                                 patchEmbedding := Some (Some [Finite 1, Finite 0]),
                                 patchEmbeddedAt := Some (Some 8)\<rparr>)])"
proof -
  have g: "getDoc sampleDatabase ''int_1_a''
     = Fulfilled (Some \<lparr>entryKey = ''int_1_a'', entryValue = sampleIntention\<rparr>)"
    by (simp add: sampleDatabase_def)
  have p: "putDoc sampleDatabase = documentsPut"
    by (simp add: sampleDatabase_def)
  have n: "''int_1_a'' \<noteq> []"
    by simp
  have te: "\<not> truthyString (patchTitle emptyPatch) \<and> \<not> truthyString (patchDescription emptyPatch)"
    by (simp add: emptyPatch_def truthyString_def)
  have pe: "documentsPut (emptyPatch\<lparr>patchUpdatedAt := Some 7\<rparr>)
              = Rejected (MissingIndexField ''intentionId'')"
    by (simp add: documentsPut_def emptyPatch_def truthyString_def)
  have a: "updateIntention sampleEmbedder 7 8 (Some sampleDatabase) ''int_1_a'' emptyPatch
       = (Rejected (MissingIndexField ''intentionId''),
          [StoreGet ''int_1_a'', StorePut (emptyPatch\<lparr>patchUpdatedAt := Some 7\<rparr>)])"
    using te updateIntention_drops_stored[OF n g, of emptyPatch sampleEmbedder 7 8]
    by (simp add: p pe await_def)
  have tt: "truthyString (patchTitle titlePatch)"
    by (simp add: titlePatch_def emptyPatch_def truthyString_def)
  have ot: "objectText (titlePatch\<lparr>patchUpdatedAt := Some 7\<rparr>) = ''help moving a piano ''"
    by (simp add: objectText_def titlePatch_def emptyPatch_def)
  have pt: "documentsPut (titlePatch\<lparr>patchUpdatedAt := Some 7,
                                 patchEmbedding := Some (Some [Finite 1, Finite 0]),
                                 patchEmbeddedAt := Some (Some 8)\<rparr>)
              = Rejected (MissingIndexField ''intentionId'')"
    by (simp add: documentsPut_def titlePatch_def emptyPatch_def truthyString_def)
  have b: "updateIntention sampleEmbedder 7 8 (Some sampleDatabase) ''int_1_a'' titlePatch
       = (Rejected (MissingIndexField ''intentionId''),
          [StoreGet ''int_1_a'', EmbedCall ''help moving a piano '',
           StorePut (titlePatch\<lparr>patchUpdatedAt := Some 7,
                                 patchEmbedding := Some (Some [Finite 1, Finite 0]),
                                 patchEmbeddedAt := Some (Some 8)\<rparr>)])"
    using tt
    by (simp add: updateIntention_def g p ot pt embedObject_def sampleEmbedder_def await_def
          Let_def)
  show ?thesis
    using g a b by (simp add: sampleIntention_def emptyPatch_def)
qed

section \<open>Joining\<close>

lemma no_open_in_dials: "filter isOpenAttempt (map Dial hints) = []"
  by (induction hints) auto

lemma clear_url:
  "map_of (urlQuery b) ''db'' \<noteq> None \<Longrightarrow>
     urlQuery (clearDatabaseFromURL b) = []
     \<and> rememberedAddress (clearDatabaseFromURL b) = rememberedAddress b"
  by (simp add: clearDatabaseFromURL_def)

lemma url_db_present:
  "getDatabaseAddressFromURL b = Some address \<Longrightarrow> map_of (urlQuery b) ''db'' \<noteq> None"
  by (auto simp: getDatabaseAddressFromURL_def split: option.splits)

lemma hints_present:
  "getPeerMultiaddrsFromURL dec b = Inr peers \<Longrightarrow>
     0 < length (case peers of None \<Rightarrow> [] | Some addrs \<Rightarrow> addrs) \<longleftrightarrow> peers \<noteq> None"
  by (auto simp: getPeerMultiaddrsFromURL_def Let_def split: option.splits if_splits)

lemma no_parameters:
  "urlQuery b = [] \<Longrightarrow>
     getDatabaseAddressFromURL b = None \<and> getPeerMultiaddrsFromURL dec b = Inr None"
  by (simp add: getDatabaseAddressFromURL_def getPeerMultiaddrsFromURL_def)

text \<open>A join from a page with no parameters and a remembered address opens that address
  first.\<close>

lemma join_remembered:
  assumes "urlQuery b = []" and "rememberedAddress b = Some stored" and "stored \<noteq> []"
  shows "\<exists>rest. snd (snd (openIntentionsDatabase dec store node b))
                  = StoreOpen stored 30000 # rest"
  using assms no_parameters[of b dec]
  by (auto simp: openIntentionsDatabase_def createNewDatabase_def raceTimeout_def Let_def
           split: promise.splits)

text \<open>
  C2, as the code has it. When the link carries an invitation address, an address is
  remembered and the \<open>peers\<close> value, if any, decodes, the only store the call tries to
  open is the invitation's, under the 30 s or the 90 s deadline. If it opens, the
  session is returned marked as joined via invitation, the invitation's address becomes
  the remembered one and the query string is emptied, so that neither \<open>db\<close> nor \<open>peers\<close>
  is read again. If it fails or times out, the call throws: peer unreachable when the
  link carried peer addresses, discovery timeout otherwise; the remembered address is
  left as it was and is not opened by that call. The failed invitation is cleared from
  the URL as well, so the next call of the join in the same page opens the remembered
  address.
\<close>

theorem invitation_before_remembered:
  assumes "getDatabaseAddressFromURL b = Some address" and "rememberedAddress b = Some stored"
    and "getPeerMultiaddrsFromURL dec b = Inr peers"
    and "openIntentionsDatabase dec store node b = (res, b', effects)"
  shows "(\<exists>t. filter isOpenAttempt effects = [StoreOpen address t] \<and> (t = 30000 \<or> t = 90000))
   \<and> (openStore store address False = Fulfilled db \<longrightarrow>
         res = Fulfilled (withFlags db False True) \<and> rememberedAddress b' = Some address
         \<and> urlQuery b' = [] \<and> getDatabaseAddressFromURL b' = None
         \<and> getPeerMultiaddrsFromURL dec b' = Inr None)
   \<and> ((openStore store address False = Rejected e \<or> openStore store address False = Pending) \<longrightarrow>
         res = Rejected (if peers \<noteq> None then PeerConnectFailed else PeerDiscoveryFailed)
         \<and> rememberedAddress b' = Some stored \<and> urlQuery b' = []
         \<and> (stored \<noteq> [] \<longrightarrow>
              (\<exists>rest. snd (snd (openIntentionsDatabase dec nextStore nextNode b'))
                        = StoreOpen stored 30000 # rest)))"
proof -
  have db: "map_of (urlQuery b) ''db'' \<noteq> None"
    using assms(1) by (rule url_db_present)
  then have db': "map_of (urlQuery (b\<lparr>rememberedAddress := Some address\<rparr>)) ''db'' \<noteq> None"
    by simp
  note c1 = clear_url[OF db] and c2 = clear_url[OF db']
  have a: "\<exists>t. filter isOpenAttempt effects = [StoreOpen address t] \<and> (t = 30000 \<or> t = 90000)"
    using assms
    by (auto simp: openIntentionsDatabase_def Let_def raceTimeout_def no_open_in_dials
             split: promise.splits if_splits)
  have ok: "openStore store address False = Fulfilled db \<longrightarrow>
         res = Fulfilled (withFlags db False True) \<and> rememberedAddress b' = Some address
         \<and> urlQuery b' = []"
    using assms c2 by (auto simp: openIntentionsDatabase_def Let_def raceTimeout_def)
  then have b: "openStore store address False = Fulfilled db \<longrightarrow>
         res = Fulfilled (withFlags db False True) \<and> rememberedAddress b' = Some address
         \<and> urlQuery b' = [] \<and> getDatabaseAddressFromURL b' = None
         \<and> getPeerMultiaddrsFromURL dec b' = Inr None"
    using no_parameters[of b' dec] by blast
  have failed: "(openStore store address False = Rejected e
                  \<or> openStore store address False = Pending) \<longrightarrow>
         res = Rejected (if peers \<noteq> None then PeerConnectFailed else PeerDiscoveryFailed)
         \<and> rememberedAddress b' = Some stored \<and> urlQuery b' = []"
    using assms c1 hints_present[OF assms(3)]
    by (auto simp: openIntentionsDatabase_def Let_def raceTimeout_def)
  then have c: "(openStore store address False = Rejected e
                  \<or> openStore store address False = Pending) \<longrightarrow>
         res = Rejected (if peers \<noteq> None then PeerConnectFailed else PeerDiscoveryFailed)
         \<and> rememberedAddress b' = Some stored \<and> urlQuery b' = []
         \<and> (stored \<noteq> [] \<longrightarrow>
              (\<exists>rest. snd (snd (openIntentionsDatabase dec nextStore nextNode b'))
                        = StoreOpen stored 30000 # rest))"
    using join_remembered[of b' stored dec nextStore nextNode] by blast
  show ?thesis
    using a b c by blast
qed

lemma peers_sample:
  "getPeerMultiaddrsFromURL plainDecode sampleBrowser
     = Inr (Some [''/ip4/203.0.113.7/tcp/4001/ws''])"
  by (simp add: getPeerMultiaddrsFromURL_def sampleBrowser_def plainDecode_def trim_def
        isWhiteSpace_def Let_def)

lemma db_sample: "getDatabaseAddressFromURL sampleBrowser = Some ''/orbitdb/zdpuB''"
  by (simp add: getDatabaseAddressFromURL_def sampleBrowser_def)

lemma join_ok:
  "openIntentionsDatabase plainDecode invitedStore (Some sampleNode) sampleBrowser
     = (Fulfilled (withFlags invitedDatabase False True),
        \<lparr>urlQuery = [], rememberedAddress = Some ''/orbitdb/zdpuB''\<rparr>,
        [Dial ''/ip4/203.0.113.7/tcp/4001/ws'', Sleep 1000, StoreOpen ''/orbitdb/zdpuB'' 30000,
         RememberAddress ''/orbitdb/zdpuB'', ClearUrl])"
proof -
  have d: "dialDirectPeers (Some sampleNode) (Some [''/ip4/203.0.113.7/tcp/4001/ws''])"
    by (simp add: dialDirectPeers_def sampleNode_def)
  have o: "openStore invitedStore ''/orbitdb/zdpuB'' False = Fulfilled invitedDatabase"
    by (simp add: invitedStore_def)
  have c: "clearDatabaseFromURL (sampleBrowser\<lparr>rememberedAddress := Some ''/orbitdb/zdpuB''\<rparr>)
     = \<lparr>urlQuery = [], rememberedAddress = Some ''/orbitdb/zdpuB''\<rparr>"
    by (simp add: clearDatabaseFromURL_def sampleBrowser_def)
  show ?thesis
    by (simp add: openIntentionsDatabase_def db_sample peers_sample d o c raceTimeout_def Let_def)
qed

lemma join_dead:
  "openIntentionsDatabase plainDecode deadStore (Some sampleNode) sampleBrowser
     = (Rejected PeerConnectFailed, clearedBrowser,
        [Dial ''/ip4/203.0.113.7/tcp/4001/ws'', Sleep 1000, StoreOpen ''/orbitdb/zdpuB'' 30000,
         ClearUrl])"
proof -
  have d: "dialDirectPeers (Some sampleNode) (Some [''/ip4/203.0.113.7/tcp/4001/ws''])"
    by (simp add: dialDirectPeers_def sampleNode_def)
  have o: "openStore deadStore a c = Pending" for a c
    by (simp add: deadStore_def)
  have c: "clearDatabaseFromURL sampleBrowser = clearedBrowser"
    by (simp add: clearDatabaseFromURL_def sampleBrowser_def clearedBrowser_def)
  show ?thesis
    by (simp add: openIntentionsDatabase_def db_sample peers_sample d o c raceTimeout_def Let_def)
qed

lemma join_again:
  "openIntentionsDatabase plainDecode rememberedStore (Some sampleNode) clearedBrowser
     = (Fulfilled (withFlags sampleDatabase False False), clearedBrowser,
        [StoreOpen ''/orbitdb/zdpuA'' 30000])"
proof -
  have u: "urlQuery clearedBrowser = []"
    by (simp add: clearedBrowser_def)
  have r: "rememberedAddress clearedBrowser = Some ''/orbitdb/zdpuA''"
    by (simp add: clearedBrowser_def)
  have o: "openStore rememberedStore ''/orbitdb/zdpuA'' False = Fulfilled sampleDatabase"
    by (simp add: rememberedStore_def)
  show ?thesis
    using no_parameters[OF u, of plainDecode]
    by (simp add: openIntentionsDatabase_def r o raceTimeout_def Let_def)
qed

theorem invitation_before_remembered_witness:
  "getDatabaseAddressFromURL sampleBrowser = Some ''/orbitdb/zdpuB''
   \<and> rememberedAddress sampleBrowser = Some ''/orbitdb/zdpuA''
   \<and> getPeerMultiaddrsFromURL plainDecode sampleBrowser
       = Inr (Some [''/ip4/203.0.113.7/tcp/4001/ws''])
   \<and> openStore invitedStore ''/orbitdb/zdpuB'' False = Fulfilled invitedDatabase
   \<and> openIntentionsDatabase plainDecode invitedStore (Some sampleNode) sampleBrowser
     = (Fulfilled (withFlags invitedDatabase False True),
        \<lparr>urlQuery = [], rememberedAddress = Some ''/orbitdb/zdpuB''\<rparr>,
        [Dial ''/ip4/203.0.113.7/tcp/4001/ws'', Sleep 1000, StoreOpen ''/orbitdb/zdpuB'' 30000,
         RememberAddress ''/orbitdb/zdpuB'', ClearUrl])
   \<and> openStore deadStore ''/orbitdb/zdpuB'' False = Pending
   \<and> openIntentionsDatabase plainDecode deadStore (Some sampleNode) sampleBrowser
     = (Rejected PeerConnectFailed, clearedBrowser,
        [Dial ''/ip4/203.0.113.7/tcp/4001/ws'', Sleep 1000, StoreOpen ''/orbitdb/zdpuB'' 30000,
         ClearUrl])
   \<and> filter isOpenAttempt
        [Dial ''/ip4/203.0.113.7/tcp/4001/ws'', Sleep 1000, StoreOpen ''/orbitdb/zdpuB'' 30000,
         ClearUrl]
       = [StoreOpen ''/orbitdb/zdpuB'' 30000]"
proof -
  have r: "rememberedAddress sampleBrowser = Some ''/orbitdb/zdpuA''"
    by (simp add: sampleBrowser_def)
  have o: "openStore invitedStore ''/orbitdb/zdpuB'' False = Fulfilled invitedDatabase"
    by (simp add: invitedStore_def)
  have p: "openStore deadStore ''/orbitdb/zdpuB'' False = Pending"
    by (simp add: deadStore_def)
  have "\<exists>t. filter isOpenAttempt
        [Dial ''/ip4/203.0.113.7/tcp/4001/ws'', Sleep 1000, StoreOpen ''/orbitdb/zdpuB'' 30000,
         ClearUrl]
       = [StoreOpen ''/orbitdb/zdpuB'' t] \<and> (t = 30000 \<or> t = 90000)"
    using invitation_before_remembered[OF db_sample r peers_sample join_dead] by blast
  then have "filter isOpenAttempt
        [Dial ''/ip4/203.0.113.7/tcp/4001/ws'', Sleep 1000, StoreOpen ''/orbitdb/zdpuB'' 30000,
         ClearUrl]
       = [StoreOpen ''/orbitdb/zdpuB'' 30000]"
    by simp
  then show ?thesis
    using db_sample r o p peers_sample join_ok join_dead by simp
qed

text \<open>
  The claim as stated fails across two calls in one page: the invitation fails and is
  cleared from the URL, the join is called again, and that call opens the remembered
  address.
\<close>

theorem invitation_retry_counterexample:
  "getDatabaseAddressFromURL sampleBrowser = Some ''/orbitdb/zdpuB''
   \<and> rememberedAddress sampleBrowser = Some ''/orbitdb/zdpuA''
   \<and> openIntentionsDatabase plainDecode deadStore (Some sampleNode) sampleBrowser
     = (Rejected PeerConnectFailed, clearedBrowser,
        [Dial ''/ip4/203.0.113.7/tcp/4001/ws'', Sleep 1000, StoreOpen ''/orbitdb/zdpuB'' 30000,
         ClearUrl])
   \<and> openIntentionsDatabase plainDecode rememberedStore (Some sampleNode) clearedBrowser
     = (Fulfilled (withFlags sampleDatabase False False), clearedBrowser,
        [StoreOpen ''/orbitdb/zdpuA'' 30000])"
  using db_sample join_dead join_again by (simp add: sampleBrowser_def)

text \<open>
  A \<open>peers\<close> value that does not decode: \<open>decodeURIComponent\<close> throws where the parameters
  are read, before the invitation is tried. Nothing is opened, the URL keeps its
  parameters, and the error is neither of the two the join has for a failed invitation.
\<close>

lemma malformed_peers:
  "getDatabaseAddressFromURL malformedBrowser = Some ''/orbitdb/zdpuB''
   \<and> openIntentionsDatabase strictDecode invitedStore (Some sampleNode) malformedBrowser
       = (Rejected URIError, malformedBrowser, [])"
  by (simp add: openIntentionsDatabase_def getDatabaseAddressFromURL_def
        getPeerMultiaddrsFromURL_def malformedBrowser_def strictDecode_def Let_def)

section \<open>Ranking\<close>





























end
